theory Spec2Isabelle
  imports Main "HOL-Library.Char_ord" "HOL-Library.List_Lexorder"
begin

section \<open>Values\<close>

text \<open>
  The values that cross from JavaScript into SQLite and back. JavaScript side: the values
  of a parsed JSON body, and \<open>undefined\<close> for an absent property. Numbers are the
  integers; objects, arrays and fractional numbers are outside the model. SQLite side:
  the storage classes NULL, INTEGER and TEXT (REAL and BLOB are outside the model).
\<close>

datatype jsval = JUndefined | JNull | JBool bool | JNum int | JStr string

datatype sqlval = SqlNull | SqlInteger int | SqlText string

text \<open>What \<open>if (v)\<close> and \<open>!v\<close> test.\<close>

fun truthy :: "jsval \<Rightarrow> bool" where
  "truthy JUndefined = False"
| "truthy JNull = False"
| "truthy (JBool b) = b"
| "truthy (JNum n) = (n \<noteq> 0)"
| "truthy (JStr s) = (s \<noteq> [])"

text \<open>
  How the sqlite3 binding passes a parameter of a \<open>?\<close> placeholder: \<open>undefined\<close>
  leaves the placeholder unbound, which SQLite reads as NULL; a boolean is the integer 0
  or 1. A value is stored as it is bound: the conversions SQLite makes under a column's
  type affinity when it stores a value (numeric text to a number in an INTEGER column, a
  number to text in a TEXT column) are outside the model, so the properties that name
  a stored value are stated for values of the column's type.
\<close>

fun bind :: "jsval \<Rightarrow> sqlval" where
  "bind JUndefined = SqlNull"
| "bind JNull = SqlNull"
| "bind (JBool b) = SqlInteger (if b then 1 else 0)"
| "bind (JNum n) = SqlInteger n"
| "bind (JStr s) = SqlText s"

text \<open>
  An id computed by \<open>parseInt\<close>: \<open>Some n\<close>, or \<open>None\<close> for NaN, which is bound
  as NULL.
\<close>

fun bind_number :: "int option \<Rightarrow> sqlval" where
  "bind_number None = SqlNull"
| "bind_number (Some n) = SqlInteger n"

text \<open>The column of a result row, as the JavaScript callback reads it.\<close>

fun row_value :: "sqlval \<Rightarrow> jsval" where
  "row_value SqlNull = JNull"
| "row_value (SqlInteger n) = JNum n"
| "row_value (SqlText s) = JStr s"

text \<open>SQL equality \<open>a = b\<close> as a WHERE condition: NULL equals nothing.\<close>

definition sql_eq :: "sqlval \<Rightarrow> sqlval \<Rightarrow> bool" where
  "sql_eq a b = (a \<noteq> SqlNull \<and> b \<noteq> SqlNull \<and> a = b)"

section \<open>Errors and promises\<close>

datatype sqlite_code =
  SQLITE_ERROR | SQLITE_CONSTRAINT | SQLITE_MISMATCH | SQLITE_IOERR | SQLITE_BUSY | SQLITE_FULL

text \<open>
  \<open>TitleRequired\<close> is \<open>Error('Title is required for chores')\<close>,
  \<open>MemberDoesNotExist v\<close> is \<open>Error(`Family member with ID ${v} does not exist`)\<close>,
  \<open>SqliteError\<close> the error object a sqlite3 callback receives, \<open>TypeError\<close> what
  reading a property of \<open>undefined\<close> throws.
\<close>

datatype js_error =
  TitleRequired | MemberDoesNotExist jsval | SqliteError sqlite_code | TypeError

text \<open>
  How a call of an async method ends: the promise resolves, rejects, or stays unsettled
  because a sqlite3 callback threw or a statement without a callback failed (the
  exception escapes to the event loop, and neither \<open>resolve\<close> nor \<open>reject\<close> is
  ever called).
\<close>

datatype 'a promise = Resolved 'a | Rejected js_error | Unsettled js_error

section \<open>The tables of \<open>createTables\<close>\<close>

text \<open>
  One record per table that the modelled operations touch, one field per column, under
  the aliases the queries use (\<open>fm\<close>, \<open>c\<close>); \<open>photo_albums\<close> and
  \<open>oauth_tokens\<close> are never read or written by them. An INTEGER PRIMARY KEY is the
  rowid, so an integer.
\<close>

record member =
  fm_id :: int
  fm_name :: sqlval
  fm_color :: sqlval
  fm_avatar_url :: sqlval
  fm_role :: sqlval
  fm_created_at :: sqlval
  fm_updated_at :: sqlval

record chore =
  c_id :: int
  c_title :: sqlval
  c_description :: sqlval
  c_assigned_to :: sqlval
  c_status :: sqlval
  c_priority :: sqlval
  c_due_date :: sqlval
  c_completed_at :: sqlval
  c_points :: sqlval
  c_category :: sqlval
  c_created_at :: sqlval
  c_updated_at :: sqlval

record completion =
  cc_id :: int
  cc_chore_id :: sqlval
  cc_member_id :: sqlval
  cc_completed_at :: sqlval
  cc_points_earned :: sqlval

record config_entry =
  dc_key :: sqlval
  dc_value :: sqlval
  dc_updated_at :: sqlval

text \<open>
  The \<open>seq_\<close> fields are the rows of \<open>sqlite_sequence\<close>: the largest rowid an
  AUTOINCREMENT table has handed out.
\<close>

record database =
  family_members :: "member list"
  chores :: "chore list"
  chore_completions :: "completion list"
  display_config :: "config_entry list"
  seq_family_members :: int
  seq_chores :: int
  seq_chore_completions :: int

text \<open>
  The connection: the tables as its statements see them, and, while a transaction is
  open, the tables as they were at BEGIN (what ROLLBACK restores).
\<close>

record store =
  db :: database
  journal :: "database option"

text \<open>
  AUTOINCREMENT: one more than the largest rowid ever used, and than every rowid in the
  table. Rowids are unbounded here (SQLite's stop at \<open>2^63 - 1\<close>).
\<close>

definition next_rowid :: "int \<Rightarrow> int list \<Rightarrow> int" where
  "next_rowid seq ids = fold max ids seq + 1"

text \<open>\<open>CURRENT_TIMESTAMP\<close>, given the clock's text \<open>now\<close>.\<close>

definition current_timestamp :: "string \<Rightarrow> sqlval" where
  "current_timestamp now = SqlText now"

section \<open>Transactions\<close>

text \<open>
  \<open>db.run('BEGIN TRANSACTION')\<close>, \<open>db.run('ROLLBACK')\<close> and \<open>db.run('COMMIT')\<close>
  are called without a callback. BEGIN inside an open transaction fails ("cannot start a
  transaction within a transaction") and leaves the tables and the transaction as they
  are. ROLLBACK is only ever issued by \<open>completeChore\<close> after its own BEGIN, with
  the transaction open.
\<close>

definition begin_transaction :: "store \<Rightarrow> sqlite_code + store" where
  "begin_transaction s =
     (case journal s of
        None \<Rightarrow> Inr (s\<lparr>journal := Some (db s)\<rparr>)
      | Some _ \<Rightarrow> Inl SQLITE_ERROR)"

definition rollback :: "store \<Rightarrow> store" where
  "rollback s =
     (case journal s of None \<Rightarrow> s | Some d \<Rightarrow> \<lparr>db = d, journal = None\<rparr>)"

definition commit :: "store \<Rightarrow> store" where
  "commit s = s\<lparr>journal := None\<rparr>"

section \<open>\<open>Database.completeChore\<close>\<close>

text \<open>\<open>SELECT points FROM chores WHERE id = ?\<close> through \<open>db.get\<close>: the first
  matching row, or \<open>undefined\<close> (here \<open>None\<close>) when there is none.\<close>

definition select_points :: "int option \<Rightarrow> database \<Rightarrow> jsval option" where
  "select_points choreId d =
     map_option (\<lambda>c. row_value (c_points c))
       (find (\<lambda>c. sql_eq (SqlInteger (c_id c)) (bind_number choreId)) (chores d))"

text \<open>\<open>UPDATE chores SET status = ?, completed_at = CURRENT_TIMESTAMP WHERE id = ?\<close>
  with \<open>['completed', choreId]\<close>.\<close>

definition update_completed :: "string \<Rightarrow> int option \<Rightarrow> database \<Rightarrow> database" where
  "update_completed now choreId d =
     d\<lparr>chores :=
         map (\<lambda>c. if sql_eq (SqlInteger (c_id c)) (bind_number choreId)
                  then c\<lparr>c_status := bind (JStr ''completed''),
                         c_completed_at := current_timestamp now\<rparr>
                  else c)
           (chores d)\<rparr>"

text \<open>\<open>INSERT INTO chore_completions (chore_id, member_id, points_earned) VALUES (?, ?, ?)\<close>:
  \<open>chore_id\<close> and \<open>member_id\<close> are NOT NULL, \<open>completed_at\<close> takes its default.
  The FOREIGN KEY clauses of the schema are not enforced: the code never turns
  \<open>PRAGMA foreign_keys\<close> on. The three columns are INTEGER columns: the values are
  stored as bound, which is what SQLite stores for integers and NULL.\<close>

definition insert_completion ::
  "string \<Rightarrow> sqlval \<Rightarrow> sqlval \<Rightarrow> sqlval \<Rightarrow> database \<Rightarrow> sqlite_code + database" where
  "insert_completion now chore_id member_id points_earned d =
     (if chore_id = SqlNull \<or> member_id = SqlNull then Inl SQLITE_CONSTRAINT
      else
        let rowid = next_rowid (seq_chore_completions d) (map cc_id (chore_completions d))
        in Inr (d\<lparr>chore_completions := chore_completions d @
                     [\<lparr>cc_id = rowid, cc_chore_id = chore_id, cc_member_id = member_id,
                       cc_completed_at = current_timestamp now,
                       cc_points_earned = points_earned\<rparr>],
                   seq_chore_completions := rowid\<rparr>))"

text \<open>
  The three statements of \<open>completeChore\<close> whose callbacks test \<open>err\<close>, and the
  COMMIT. Beside the constraint errors computed from the tables, a statement can fail for
  reasons of the engine (I/O error, disk full, busy): \<open>faults\<close> says which statement
  does, with which code.
\<close>

datatype step = ReadPoints | UpdateStatus | InsertCompletion | Commit

definition no_faults :: "step \<Rightarrow> sqlite_code option" where
  "no_faults = (\<lambda>_. None)"

text \<open>
  \<open>completeChore(choreId, memberId)\<close>.
  \<^item> BEGIN has no callback: when it fails, sqlite3 emits an \<open>error\<close> event that nothing
    listens to, the exception escapes to the event loop (the server has no
    \<open>uncaughtException\<close> handler), and the promise is never settled.
  \<^item> The UPDATE is issued before \<open>chore.points\<close> is read for the parameters of the
    INSERT: when the SELECT found no row, \<open>chore\<close> is \<open>undefined\<close> and that read
    throws inside the UPDATE's callback, after BEGIN and the UPDATE, with neither COMMIT
    nor ROLLBACK.
  \<^item> \<open>resolve(true)\<close> is called right after COMMIT is queued, without a callback: when
    the COMMIT fails, the promise is resolved all the same and the transaction is not
    committed (it is left open here, as after SQLITE_BUSY).
\<close>

definition completeChore ::
  "(step \<Rightarrow> sqlite_code option) \<Rightarrow> string \<Rightarrow> int option \<Rightarrow> jsval \<Rightarrow> store
     \<Rightarrow> bool promise \<times> store" where
  "completeChore faults now choreId memberId s =
     (case begin_transaction s of
        Inl err \<Rightarrow> (Unsettled (SqliteError err), s)
      | Inr s1 \<Rightarrow>
         (case faults ReadPoints of
            Some err \<Rightarrow> (Rejected (SqliteError err), rollback s1)
          | None \<Rightarrow>
              let chore = select_points choreId (db s1) in
              (case faults UpdateStatus of
                 Some err \<Rightarrow> (Rejected (SqliteError err), rollback s1)
               | None \<Rightarrow>
                   let s2 = s1\<lparr>db := update_completed now choreId (db s1)\<rparr> in
                   (case chore of
                      None \<Rightarrow> (Unsettled TypeError, s2)
                    | Some points \<Rightarrow>
                        (case (case faults InsertCompletion of
                                 Some err \<Rightarrow> Inl err
                               | None \<Rightarrow>
                                   insert_completion now (bind_number choreId) (bind memberId)
                                     (bind points) (db s2)) of
                           Inl err \<Rightarrow> (Rejected (SqliteError err), rollback s2)
                         | Inr d3 \<Rightarrow>
                             (Resolved True,
                              case faults Commit of
                                None \<Rightarrow> commit (s2\<lparr>db := d3\<rparr>)
                              | Some _ \<Rightarrow> s2\<lparr>db := d3\<rparr>))))))"

section \<open>Seeding: \<open>Database.insertDefaultConfig\<close>\<close>

definition defaultConfigs :: "(string \<times> string) list" where
  "defaultConfigs =
     [(''current_view'', ''dashboard''),
      (''photo_rotation_interval'', ''30000''),
      (''calendar_refresh_interval'', ''300000''),
      (''display_brightness'', ''80''),
      (''sleep_schedule_enabled'', ''0''),
      (''sleep_start_time'', ''22:00''),
      (''wake_time'', ''07:00'')]"

definition defaultMembers :: "(string \<times> string \<times> string) list" where
  "defaultMembers =
     [(''Mom'', ''#E91E63'', ''admin''),
      (''Dad'', ''#3F51B5'', ''admin''),
      (''Child 1'', ''#4CAF50'', ''member''),
      (''Child 2'', ''#FF9800'', ''member'')]"

text \<open>\<open>INSERT OR IGNORE INTO display_config (key, value) VALUES (?, ?)\<close>: the row is
  skipped when its key is already there (PRIMARY KEY) or its value is NULL (NOT NULL).\<close>

definition insert_or_ignore_config :: "string \<Rightarrow> sqlval \<Rightarrow> sqlval \<Rightarrow> database \<Rightarrow> database" where
  "insert_or_ignore_config now k v d =
     (if v = SqlNull \<or> list_ex (\<lambda>e. sql_eq (dc_key e) k) (display_config d) then d
      else d\<lparr>display_config := display_config d @
               [\<lparr>dc_key = k, dc_value = v, dc_updated_at = current_timestamp now\<rparr>]\<rparr>)"

text \<open>\<open>INSERT INTO family_members (name, color, role) VALUES (?, ?, ?)\<close>: \<open>name\<close> is
  NOT NULL and UNIQUE.\<close>

definition insert_member ::
  "string \<Rightarrow> sqlval \<Rightarrow> sqlval \<Rightarrow> sqlval \<Rightarrow> database \<Rightarrow> sqlite_code + database" where
  "insert_member now name color role d =
     (if name = SqlNull \<or> list_ex (\<lambda>m. sql_eq (fm_name m) name) (family_members d)
      then Inl SQLITE_CONSTRAINT
      else
        let rowid = next_rowid (seq_family_members d) (map fm_id (family_members d))
        in Inr (d\<lparr>family_members := family_members d @
                     [\<lparr>fm_id = rowid, fm_name = name, fm_color = color,
                       fm_avatar_url = SqlNull, fm_role = role,
                       fm_created_at = current_timestamp now,
                       fm_updated_at = current_timestamp now\<rparr>],
                   seq_family_members := rowid\<rparr>))"

text \<open>The bodies of the two \<open>forEach\<close> loops. The member inserts have no callback:
  an insert that fails leaves the table as it was.\<close>

definition seed_config :: "string \<Rightarrow> string \<times> string \<Rightarrow> database \<Rightarrow> database" where
  "seed_config now config d =
     insert_or_ignore_config now (bind (JStr (fst config))) (bind (JStr (snd config))) d"

definition seed_member :: "string \<Rightarrow> string \<times> string \<times> string \<Rightarrow> database \<Rightarrow> database" where
  "seed_member now member d =
     (case insert_member now (bind (JStr (fst member))) (bind (JStr (fst (snd member))))
             (bind (JStr (snd (snd member)))) d of
        Inl _ \<Rightarrow> d
      | Inr d' \<Rightarrow> d')"

text \<open>
  \<open>insertDefaultConfig\<close>: the seven configuration rows, then, when
  \<open>SELECT COUNT(*) FROM family_members\<close> gives 0, the four members.
\<close>

definition insertDefaultConfig :: "string \<Rightarrow> store \<Rightarrow> store" where
  "insertDefaultConfig now s =
     (let d1 = fold (seed_config now) defaultConfigs (db s);
          count = int (length (family_members d1))
      in if count = 0
         then s\<lparr>db := fold (seed_member now) defaultMembers d1\<rparr>
         else s\<lparr>db := d1\<rparr>)"

text \<open>A database file that did not exist before: after the \<open>CREATE TABLE IF NOT EXISTS\<close>
  statements every table is there and empty. On a file that has the tables, those
  statements change nothing, so initialising a store is \<open>insertDefaultConfig\<close>.\<close>

definition fresh_store :: store where
  "fresh_store =
     \<lparr>db = \<lparr>family_members = [], chores = [], chore_completions = [], display_config = [],
             seq_family_members = 0, seq_chores = 0, seq_chore_completions = 0\<rparr>,
      journal = None\<rparr>"

definition createTables :: "string \<Rightarrow> store \<Rightarrow> store" where
  "createTables now s = insertDefaultConfig now s"

section \<open>ORDER BY\<close>

text \<open>
  SQLite's order of values: NULL before every other value, then the numbers by value,
  then text, compared byte by byte (the BINARY collation: the order of \<open>string\<close> here).
\<close>

fun sql_le :: "sqlval \<Rightarrow> sqlval \<Rightarrow> bool" where
  "sql_le SqlNull _ = True"
| "sql_le (SqlInteger a) SqlNull = False"
| "sql_le (SqlInteger a) (SqlInteger b) = (a \<le> b)"
| "sql_le (SqlInteger a) (SqlText t) = True"
| "sql_le (SqlText s) SqlNull = False"
| "sql_le (SqlText s) (SqlInteger b) = False"
| "sql_le (SqlText s) (SqlText t) = (s \<le> t)"

definition sql_less :: "sqlval \<Rightarrow> sqlval \<Rightarrow> bool" where
  "sql_less a b = (\<not> sql_le b a)"

text \<open>The sorter: rows that compare equal keep the order of the scan (SQLite promises
  no order among them).\<close>

fun insert_sorted :: "('a \<Rightarrow> 'a \<Rightarrow> bool) \<Rightarrow> 'a \<Rightarrow> 'a list \<Rightarrow> 'a list" where
  "insert_sorted le x [] = [x]"
| "insert_sorted le x (y # ys) =
     (if le x y then x # y # ys else y # insert_sorted le x ys)"

definition order_by :: "('a \<Rightarrow> 'a \<Rightarrow> bool) \<Rightarrow> 'a list \<Rightarrow> 'a list" where
  "order_by le xs = foldr (insert_sorted le) xs []"

section \<open>\<open>Database.getFamilyMembers\<close> and \<open>Database.getChores\<close>\<close>

text \<open>\<open>SELECT * FROM family_members ORDER BY name\<close>.\<close>

definition getFamilyMembers :: "database \<Rightarrow> member list" where
  "getFamilyMembers d = order_by (\<lambda>a b. sql_le (fm_name a) (fm_name b)) (family_members d)"

text \<open>A row of \<open>getChores\<close>: \<open>c.*\<close>, \<open>fm.name as assigned_name\<close> and
  \<open>fm.color as assigned_color\<close>.\<close>

record chore_row =
  r_chore :: chore
  assigned_name :: sqlval
  assigned_color :: sqlval

text \<open>\<open>FROM chores c LEFT JOIN family_members fm ON c.assigned_to = fm.id\<close>: a chore
  with no matching member gives one row, with NULL for the member's columns.\<close>

definition left_join_members :: "member list \<Rightarrow> chore \<Rightarrow> chore_row list" where
  "left_join_members ms c =
     (case filter (\<lambda>fm. sql_eq (c_assigned_to c) (SqlInteger (fm_id fm))) ms of
        [] \<Rightarrow> [\<lparr>r_chore = c, assigned_name = SqlNull, assigned_color = SqlNull\<rparr>]
      | fms \<Rightarrow> map (\<lambda>fm. \<lparr>r_chore = c, assigned_name = fm_name fm,
                            assigned_color = fm_color fm\<rparr>) fms)"

text \<open>
  In \<open>c.assigned_to = ?\<close> the column has INTEGER affinity and the parameter none, so
  SQLite converts a text parameter that is a number before it compares: the filters of
  \<open>GET /api/chores\<close> come from the query string and are text. Here: text that is an
  integer literal (a sign and decimal digits) becomes that integer; text with a fraction,
  an exponent or white space around it is outside the model. In \<open>c.status = ?\<close> a text
  parameter is compared as it is.
\<close>

definition is_digit :: "char \<Rightarrow> bool" where
  "is_digit c = (CHR ''0'' \<le> c \<and> c \<le> CHR ''9'')"

definition digits_value :: "string \<Rightarrow> nat" where
  "digits_value ds = foldl (\<lambda>n c. 10 * n + (of_char c - 48)) 0 ds"

definition integer_literal :: "string \<Rightarrow> int option" where
  "integer_literal s =
     (let neg = (s \<noteq> [] \<and> hd s = CHR ''-'');
          ds = (if s \<noteq> [] \<and> (hd s = CHR ''-'' \<or> hd s = CHR ''+'') then tl s else s)
      in if ds \<noteq> [] \<and> list_all is_digit ds
         then Some (if neg then - int (digits_value ds) else int (digits_value ds))
         else None)"

definition numeric_affinity :: "sqlval \<Rightarrow> sqlval" where
  "numeric_affinity v =
     (case v of
        SqlText t \<Rightarrow> (case integer_literal t of None \<Rightarrow> v | Some n \<Rightarrow> SqlInteger n)
      | _ \<Rightarrow> v)"

text \<open>The conditions of the WHERE clause, joined by AND; none when neither filter is
  truthy.\<close>

definition where_conditions :: "jsval \<Rightarrow> jsval \<Rightarrow> (chore_row \<Rightarrow> bool) list" where
  "where_conditions status assignedTo =
     (if truthy status \<or> truthy assignedTo
      then (if truthy status
            then [\<lambda>r. sql_eq (c_status (r_chore r)) (bind status)] else []) @
           (if truthy assignedTo
            then [\<lambda>r. sql_eq (c_assigned_to (r_chore r)) (numeric_affinity (bind assignedTo))]
            else [])
      else [])"

text \<open>\<open>ORDER BY c.due_date ASC, c.priority DESC\<close>: whether row \<open>a\<close> may stand
  before row \<open>b\<close>.\<close>

definition chores_order :: "chore_row \<Rightarrow> chore_row \<Rightarrow> bool" where
  "chores_order a b =
     (sql_less (c_due_date (r_chore a)) (c_due_date (r_chore b)) \<or>
      (c_due_date (r_chore a) = c_due_date (r_chore b) \<and>
       sql_le (c_priority (r_chore b)) (c_priority (r_chore a))))"

text \<open>\<open>getChores(status = null, assignedTo = null)\<close>; the promise resolves with the
  rows.\<close>

definition getChores :: "jsval \<Rightarrow> jsval \<Rightarrow> database \<Rightarrow> chore_row list" where
  "getChores status assignedTo d =
     order_by chores_order
       (filter (\<lambda>r. list_all (\<lambda>cond. cond r) (where_conditions status assignedTo))
          (concat (map (left_join_members (family_members d)) (chores d))))"

section \<open>\<open>Database.addChore\<close>\<close>

text \<open>A JavaScript object (a request body): its properties in order. A property that
  is not there reads as \<open>undefined\<close>; a destructuring default replaces \<open>undefined\<close>
  only.\<close>

type_synonym jsobject = "(string \<times> jsval) list"

definition property :: "jsobject \<Rightarrow> string \<Rightarrow> jsval" where
  "property obj k = (case map_of obj k of None \<Rightarrow> JUndefined | Some v \<Rightarrow> v)"

definition default_to :: "jsval \<Rightarrow> jsval \<Rightarrow> jsval" where
  "default_to d v = (if v = JUndefined then d else v)"

text \<open>\<open>INSERT INTO chores (title, description, assigned_to, due_date, priority,
  category, points) VALUES (?, ?, ?, ?, ?, ?, ?)\<close>: \<open>title\<close> is NOT NULL; the columns
  the statement does not name take the defaults of the schema; the FOREIGN KEY clause
  of \<open>assigned_to\<close> is not enforced. The result carries \<open>this.lastID\<close>.\<close>

definition insert_chore ::
  "string \<Rightarrow> sqlval \<Rightarrow> sqlval \<Rightarrow> sqlval \<Rightarrow> sqlval \<Rightarrow> sqlval \<Rightarrow> sqlval \<Rightarrow> sqlval \<Rightarrow> database
     \<Rightarrow> sqlite_code + (int \<times> database)" where
  "insert_chore now title description assigned_to due_date priority category points d =
     (if title = SqlNull then Inl SQLITE_CONSTRAINT
      else
        let rowid = next_rowid (seq_chores d) (map c_id (chores d))
        in Inr (rowid,
                d\<lparr>chores := chores d @
                     [\<lparr>c_id = rowid, c_title = title, c_description = description,
                       c_assigned_to = assigned_to, c_status = SqlText ''pending'',
                       c_priority = priority, c_due_date = due_date,
                       c_completed_at = SqlNull, c_points = points,
                       c_category = category,
                       c_created_at = current_timestamp now,
                       c_updated_at = current_timestamp now\<rparr>],
                   seq_chores := rowid\<rparr>))"

text \<open>\<open>addChore(chore)\<close>. A \<open>throw\<close> in the async method rejects its promise.
  \<open>m.id === assigned_to\<close> is strict equality with the number \<open>m.id\<close>.\<close>

definition addChore :: "string \<Rightarrow> jsobject \<Rightarrow> store \<Rightarrow> int promise \<times> store" where
  "addChore now chore s =
     (let title = property chore ''title'';
          description = property chore ''description'';
          assigned_to = property chore ''assigned_to'';
          due_date = property chore ''due_date'';
          priority = default_to (JStr ''normal'') (property chore ''priority'');
          category = default_to (JStr ''general'') (property chore ''category'');
          points = default_to (JNum 1) (property chore ''points'')
      in if \<not> truthy title then (Rejected TitleRequired, s)
         else if truthy assigned_to \<and>
                 find (\<lambda>m. JNum (fm_id m) = assigned_to) (getFamilyMembers (db s)) = None
         then (Rejected (MemberDoesNotExist assigned_to), s)
         else
           (case insert_chore now (bind title) (bind description) (bind assigned_to)
                   (bind due_date) (bind priority) (bind category) (bind points) (db s) of
              Inl err \<Rightarrow> (Rejected (SqliteError err), s)
            | Inr (lastID, d') \<Rightarrow> (Resolved lastID, s\<lparr>db := d'\<rparr>)))"

section \<open>\<open>Database.updateChore\<close>\<close>

text \<open>
  The statement is \<open>UPDATE chores SET k1 = ?, ..., kn = ?, updated_at = CURRENT_TIMESTAMP
  WHERE id = ?\<close>, its SET list built from the keys of \<open>updates\<close>. With no key the list
  starts with a comma, which SQLite refuses; so it does a key that names no column of
  \<open>chores\<close>. SQLite reads a column name without regard to the case of its ASCII
  letters. A key is taken to be a bare name: a quoted name, an alias of the rowid or a
  key that carries SQL text of its own is outside the model.
\<close>

definition ascii_lower :: "char \<Rightarrow> char" where
  "ascii_lower c =
     (case map_of (zip ''ABCDEFGHIJKLMNOPQRSTUVWXYZ'' ''abcdefghijklmnopqrstuvwxyz'') c of
        None \<Rightarrow> c
      | Some l \<Rightarrow> l)"

definition column_name :: "string \<Rightarrow> string" where
  "column_name k = map ascii_lower k"

definition chores_columns :: "string list" where
  "chores_columns =
     [''id'', ''title'', ''description'', ''assigned_to'', ''status'', ''priority'',
      ''due_date'', ''completed_at'', ''points'', ''category'', ''created_at'',
      ''updated_at'']"

definition prepare_update :: "string list \<Rightarrow> bool" where
  "prepare_update keys =
     (keys \<noteq> [] \<and> list_all (\<lambda>k. column_name k \<in> set chores_columns) keys)"

text \<open>One assignment of the SET list. The rowid takes integers only.\<close>

definition set_column :: "string \<Rightarrow> sqlval \<Rightarrow> chore \<Rightarrow> sqlite_code + chore" where
  "set_column k v c =
     (let col = column_name k in
      if col = ''id''
      then (case v of SqlInteger n \<Rightarrow> Inr (c\<lparr>c_id := n\<rparr>) | _ \<Rightarrow> Inl SQLITE_MISMATCH)
      else if col = ''title'' then Inr (c\<lparr>c_title := v\<rparr>)
      else if col = ''description'' then Inr (c\<lparr>c_description := v\<rparr>)
      else if col = ''assigned_to'' then Inr (c\<lparr>c_assigned_to := v\<rparr>)
      else if col = ''status'' then Inr (c\<lparr>c_status := v\<rparr>)
      else if col = ''priority'' then Inr (c\<lparr>c_priority := v\<rparr>)
      else if col = ''due_date'' then Inr (c\<lparr>c_due_date := v\<rparr>)
      else if col = ''completed_at'' then Inr (c\<lparr>c_completed_at := v\<rparr>)
      else if col = ''points'' then Inr (c\<lparr>c_points := v\<rparr>)
      else if col = ''category'' then Inr (c\<lparr>c_category := v\<rparr>)
      else if col = ''created_at'' then Inr (c\<lparr>c_created_at := v\<rparr>)
      else if col = ''updated_at'' then Inr (c\<lparr>c_updated_at := v\<rparr>)
      else Inl SQLITE_ERROR)"

text \<open>The SET list on one row, left to right (of two assignments to one column the
  right one stays), \<open>updated_at = CURRENT_TIMESTAMP\<close> last; then NOT NULL of
  \<open>title\<close>.\<close>

fun set_columns :: "(string \<times> sqlval) list \<Rightarrow> chore \<Rightarrow> sqlite_code + chore" where
  "set_columns [] c = Inr c"
| "set_columns ((k, v) # as) c =
     (case set_column k v c of Inl err \<Rightarrow> Inl err | Inr c' \<Rightarrow> set_columns as c')"

definition update_row :: "string \<Rightarrow> (string \<times> sqlval) list \<Rightarrow> chore \<Rightarrow> sqlite_code + chore" where
  "update_row now as c =
     (case set_columns as c of
        Inl err \<Rightarrow> Inl err
      | Inr c' \<Rightarrow>
          let c'' = c'\<lparr>c_updated_at := current_timestamp now\<rparr>
          in if c_title c'' = SqlNull then Inl SQLITE_CONSTRAINT else Inr c'')"

text \<open>The rows \<open>WHERE id = ?\<close> selects, updated in place: the number of rows changed,
  and the table.\<close>

fun update_rows ::
  "string \<Rightarrow> (string \<times> sqlval) list \<Rightarrow> sqlval \<Rightarrow> chore list \<Rightarrow> sqlite_code + (nat \<times> chore list)" where
  "update_rows now as i [] = Inr (0, [])"
| "update_rows now as i (c # cs) =
     (if sql_eq (SqlInteger (c_id c)) i
      then (case update_row now as c of
              Inl err \<Rightarrow> Inl err
            | Inr c' \<Rightarrow>
                (case update_rows now as i cs of
                   Inl err \<Rightarrow> Inl err
                 | Inr (n, cs') \<Rightarrow> Inr (Suc n, c' # cs')))
      else (case update_rows now as i cs of
              Inl err \<Rightarrow> Inl err
            | Inr (n, cs') \<Rightarrow> Inr (n, c # cs')))"

text \<open>The whole statement: a statement that does not compile fails before any row is
  looked at; a changed rowid must stay unique (PRIMARY KEY).\<close>

definition update_chores ::
  "string \<Rightarrow> (string \<times> sqlval) list \<Rightarrow> sqlval \<Rightarrow> database \<Rightarrow> sqlite_code + (nat \<times> database)" where
  "update_chores now as i d =
     (if \<not> prepare_update (map fst as) then Inl SQLITE_ERROR
      else
        (case update_rows now as i (chores d) of
           Inl err \<Rightarrow> Inl err
         | Inr (n, cs') \<Rightarrow>
             if n = 0 then Inr (0, d)
             else if distinct (map c_id cs') then Inr (n, d\<lparr>chores := cs'\<rparr>)
             else Inl SQLITE_CONSTRAINT))"

text \<open>\<open>updateChore(id, updates)\<close>: the values of \<open>updates\<close> are the parameters of
  the SET list, \<open>id\<close> the one of the WHERE clause; resolves with \<open>this.changes\<close>.\<close>

definition updateChore :: "string \<Rightarrow> int option \<Rightarrow> jsobject \<Rightarrow> store \<Rightarrow> nat promise \<times> store" where
  "updateChore now i updates s =
     (case update_chores now (map (\<lambda>(k, v). (k, bind v)) updates) (bind_number i) (db s) of
        Inl err \<Rightarrow> (Rejected (SqliteError err), s)
      | Inr (changes, d') \<Rightarrow> (Resolved changes, s\<lparr>db := d'\<rparr>))"

section \<open>The routes of \<open>/api/chores\<close>\<close>

text \<open>A response: its status (200 when the handler sets none) and its JSON body,
  \<open>{ message }\<close> or \<open>{ error }\<close>.\<close>

datatype json_body = MessageBody string | ErrorBody string

record response =
  status_code :: nat
  json :: json_body

text \<open>\<open>PUT /:choreId\<close>; \<open>choreId\<close> is what \<open>parseInt(req.params.choreId)\<close> gave,
  \<open>body\<close> is \<open>req.body\<close>.\<close>

definition put_chore :: "string \<Rightarrow> int option \<Rightarrow> jsobject \<Rightarrow> store \<Rightarrow> response \<times> store" where
  "put_chore now choreId body s =
     (case updateChore now choreId body s of
        (Resolved changes, s') \<Rightarrow>
          if changes = 0
          then (\<lparr>status_code = 404, json = ErrorBody ''Chore not found''\<rparr>, s')
          else (\<lparr>status_code = 200, json = MessageBody ''Chore updated successfully''\<rparr>, s')
      | (_, s') \<Rightarrow> (\<lparr>status_code = 500, json = ErrorBody ''Failed to update chore''\<rparr>, s'))"

text \<open>\<open>POST /:choreId/complete\<close>. The handler awaits the promise of
  \<open>completeChore\<close>: while that stays unsettled no response is sent (\<open>None\<close>).\<close>

definition post_complete ::
  "(step \<Rightarrow> sqlite_code option) \<Rightarrow> string \<Rightarrow> int option \<Rightarrow> jsobject \<Rightarrow> store
     \<Rightarrow> response option \<times> store" where
  "post_complete faults now choreId body s =
     (let memberId = property body ''memberId'' in
      case completeChore faults now choreId memberId s of
        (Resolved _, s') \<Rightarrow>
          (Some \<lparr>status_code = 200, json = MessageBody ''Chore completed successfully''\<rparr>, s')
      | (Rejected _, s') \<Rightarrow>
          (Some \<lparr>status_code = 500, json = ErrorBody ''Failed to complete chore''\<rparr>, s')
      | (Unsettled _, s') \<Rightarrow> (None, s'))"

section \<open>The Socket.IO handlers\<close>

text \<open>
  The server's state is the list of connected sockets. \<open>io.emit(name, payload)\<close>
  sends one message to every connected socket. The handlers of a socket are registered
  when it connects, so only a connected socket is heard.
\<close>

datatype 'p client_event = Switch_view 'p | Config_update 'p | Chore_update 'p

datatype 'p server_event = View_changed 'p | Config_changed 'p | Chore_changed 'p

datatype 'p input = Connection nat | Disconnect nat | Received nat "'p client_event"

definition io_emit :: "nat list \<Rightarrow> 'p server_event \<Rightarrow> (nat \<times> 'p server_event) list" where
  "io_emit sockets ev = map (\<lambda>socket. (socket, ev)) sockets"

fun socket_on :: "nat list \<Rightarrow> 'p client_event \<Rightarrow> (nat \<times> 'p server_event) list" where
  "socket_on sockets (Switch_view viewName) = io_emit sockets (View_changed viewName)"
| "socket_on sockets (Config_update config) = io_emit sockets (Config_changed config)"
| "socket_on sockets (Chore_update choreData) = io_emit sockets (Chore_changed choreData)"

text \<open>One input of the server: the sockets afterwards, and the messages sent.\<close>

fun io_step :: "nat list \<Rightarrow> 'p input \<Rightarrow> nat list \<times> (nat \<times> 'p server_event) list" where
  "io_step sockets (Connection socket) =
     (if socket \<in> set sockets then sockets else sockets @ [socket], [])"
| "io_step sockets (Disconnect socket) = (filter (\<lambda>x. x \<noteq> socket) sockets, [])"
| "io_step sockets (Received socket ev) =
     (sockets, if socket \<in> set sockets then socket_on sockets ev else [])"

section \<open>The order of \<open>listChores\<close> as the specification words it\<close>

text \<open>Due dates ascending with NULL after every date: what the second due date must be
  to the first.\<close>

definition due_date_asc_nulls_last :: "sqlval \<Rightarrow> sqlval \<Rightarrow> bool" where
  "due_date_asc_nulls_last a b = (b = SqlNull \<or> (a \<noteq> SqlNull \<and> sql_le a b))"

section \<open>A store to run the operations on\<close>

text \<open>One member, a pending chore without a due date, and a chore that was completed
  once.\<close>

definition example_store :: store where
  "example_store =
     \<lparr>db =
        \<lparr>family_members =
           [\<lparr>fm_id = 1, fm_name = SqlText ''Mom'', fm_color = SqlText ''#E91E63'',
             fm_avatar_url = SqlNull, fm_role = SqlText ''admin'',
             fm_created_at = SqlText ''2024-05-01 08:00:00'',
             fm_updated_at = SqlText ''2024-05-01 08:00:00''\<rparr>],
         chores =
           [\<lparr>c_id = 1, c_title = SqlText ''Trash'', c_description = SqlNull,
             c_assigned_to = SqlInteger 1, c_status = SqlText ''pending'',
             c_priority = SqlText ''normal'', c_due_date = SqlNull,
             c_completed_at = SqlNull, c_points = SqlInteger 3,
             c_category = SqlText ''general'',
             c_created_at = SqlText ''2024-05-02 09:00:00'',
             c_updated_at = SqlText ''2024-05-02 09:00:00''\<rparr>,
            \<lparr>c_id = 2, c_title = SqlText ''Dishes'', c_description = SqlNull,
             c_assigned_to = SqlInteger 1, c_status = SqlText ''completed'',
             c_priority = SqlText ''high'', c_due_date = SqlText ''2024-06-01'',
             c_completed_at = SqlText ''2024-05-03 18:00:00'', c_points = SqlInteger 5,
             c_category = SqlText ''general'',
             c_created_at = SqlText ''2024-05-02 09:30:00'',
             c_updated_at = SqlText ''2024-05-02 09:30:00''\<rparr>],
         chore_completions =
           [\<lparr>cc_id = 1, cc_chore_id = SqlInteger 2, cc_member_id = SqlInteger 1,
             cc_completed_at = SqlText ''2024-05-03 18:00:00'',
             cc_points_earned = SqlInteger 5\<rparr>],
         display_config = [],
         seq_family_members = 1, seq_chores = 2, seq_chore_completions = 1\<rparr>,
      journal = None\<rparr>"

text \<open>A request body for \<open>addChore\<close> that also carries a status and a
  completed_at.\<close>

definition example_chore :: jsobject where
  "example_chore =
     [(''title'', JStr ''Laundry''), (''assigned_to'', JNum 1), (''points'', JNum 2),
      (''status'', JStr ''completed''), (''completed_at'', JStr ''2024-01-01 00:00:00'')]"

section \<open>Properties of \<open>completeChore\<close>\<close>

lemma bind_row_value: "bind (row_value v) = v"
  by (cases v) simp_all

lemma select_points_Some:
  "find (\<lambda>c. c_id c = n) (chores d) = Some c0 \<Longrightarrow>
   select_points (Some n) d = Some (row_value (c_points c0))"
  by (simp add: select_points_def sql_eq_def)

lemma select_points_None:
  "n \<notin> c_id ` set (chores d) \<Longrightarrow> select_points (Some n) d = None"
  by (auto simp: select_points_def sql_eq_def find_None_iff)

text \<open>The call, statement by statement, when no transaction is open at its start.\<close>

lemma completeChore_unfold:
  assumes "journal s = None"
  shows "completeChore faults now choreId memberId s =
     (case faults ReadPoints of
        Some err \<Rightarrow> (Rejected (SqliteError err), s)
      | None \<Rightarrow>
         (case faults UpdateStatus of
            Some err \<Rightarrow> (Rejected (SqliteError err), s)
          | None \<Rightarrow>
             (case select_points choreId (db s) of
                None \<Rightarrow> (Unsettled TypeError,
                          \<lparr>db = update_completed now choreId (db s), journal = Some (db s)\<rparr>)
              | Some p \<Rightarrow>
                 (case faults InsertCompletion of
                    Some err \<Rightarrow> (Rejected (SqliteError err), s)
                  | None \<Rightarrow>
                     (case insert_completion now (bind_number choreId) (bind memberId) (bind p)
                             (update_completed now choreId (db s)) of
                        Inl err \<Rightarrow> (Rejected (SqliteError err), s)
                      | Inr d3 \<Rightarrow>
                          (Resolved True,
                           \<lparr>db = d3,
                            journal = (case faults Commit of None \<Rightarrow> None
                                       | Some _ \<Rightarrow> Some (db s))\<rparr>))))))"
  using assms
  by (cases s)
     (simp add: completeChore_def Let_def begin_transaction_def rollback_def commit_def
        split: option.splits sum.splits)

text \<open>With a transaction open at its start the call is never settled, and changes
  nothing.\<close>

lemma completeChore_open_transaction:
  "journal s = Some d \<Longrightarrow>
   completeChore faults now choreId memberId s = (Unsettled (SqliteError SQLITE_ERROR), s)"
  by (simp add: completeChore_def begin_transaction_def)

text \<open>Without a failure of the engine, with no transaction open, on a chore that is there
  and with an integer for the member id, the call resolves: the store afterwards.\<close>

lemma completeChore_effect:
  assumes j: "journal s = None"
    and found: "find (\<lambda>c. c_id c = n) (chores (db s)) = Some c0"
  shows "completeChore no_faults now (Some n) (JNum m) s =
     (Resolved True,
      \<lparr>db = (db s)
         \<lparr>chores :=
            map (\<lambda>c. if c_id c = n
                     then c\<lparr>c_status := SqlText ''completed'', c_completed_at := SqlText now\<rparr>
                     else c) (chores (db s)),
          chore_completions := chore_completions (db s) @
           [\<lparr>cc_id = next_rowid (seq_chore_completions (db s))
                      (map cc_id (chore_completions (db s))),
             cc_chore_id = SqlInteger n, cc_member_id = SqlInteger m,
             cc_completed_at = SqlText now, cc_points_earned = c_points c0\<rparr>],
          seq_chore_completions := next_rowid (seq_chore_completions (db s))
                                    (map cc_id (chore_completions (db s)))\<rparr>,
       journal = None\<rparr>)"
  unfolding completeChore_unfold[OF j]
  by (simp add: no_faults_def select_points_Some[OF found] bind_row_value insert_completion_def
      Let_def update_completed_def sql_eq_def current_timestamp_def)


lemma completed_row:
  "c_id (if c_id c = n
         then c\<lparr>c_status := SqlText ''completed'', c_completed_at := SqlText now\<rparr>
         else c) = n \<longrightarrow>
   c_status (if c_id c = n
             then c\<lparr>c_status := SqlText ''completed'', c_completed_at := SqlText now\<rparr>
             else c) = SqlText ''completed'' \<and>
   c_completed_at (if c_id c = n
                   then c\<lparr>c_status := SqlText ''completed'', c_completed_at := SqlText now\<rparr>
                   else c) \<noteq> SqlNull"
  by simp

lemma completed_rows:
  "\<forall>c \<in> set (map (\<lambda>c. if c_id c = n
                         then c\<lparr>c_status := SqlText ''completed'',
                                c_completed_at := SqlText now\<rparr>
                         else c) cs).
     c_id c = n \<longrightarrow> c_status c = SqlText ''completed'' \<and> c_completed_at c \<noteq> SqlNull"
  unfolding set_map ball_simps by (intro ballI) (rule completed_row)

text \<open>
  Claim C1. With no transaction open, when \<open>choreId\<close> is the id of a chore of the store
  (\<open>c0\<close> is the row the SELECT reads) and \<open>memberId\<close> is an integer \<open>m\<close>, one call
  of \<open>completeChore\<close> resolves; afterwards every chore with that id has status
  \<open>completed\<close> and a \<open>completed_at\<close> that is not NULL, the other chores are as
  before, and \<open>chore_completions\<close> has exactly one more row, for that chore and that
  member, whose \<open>points_earned\<close> is the \<open>points\<close> that was read.
\<close>

theorem completeChore_completes_and_records:
  assumes "journal s = None"
    and "find (\<lambda>c. c_id c = n) (chores (db s)) = Some c0"
  shows "\<exists>s' r. completeChore no_faults now (Some n) (JNum m) s = (Resolved True, s') \<and>
           chores (db s') =
             map (\<lambda>c. if c_id c = n
                      then c\<lparr>c_status := SqlText ''completed'', c_completed_at := SqlText now\<rparr>
                      else c) (chores (db s)) \<and>
           (\<forall>c \<in> set (chores (db s')). c_id c = n \<longrightarrow>
              c_status c = SqlText ''completed'' \<and> c_completed_at c \<noteq> SqlNull) \<and>
           chore_completions (db s') = chore_completions (db s) @ [r] \<and>
           cc_chore_id r = SqlInteger n \<and> cc_member_id r = SqlInteger m \<and>
           cc_points_earned r = c_points c0"
proof -
  let ?r = "\<lparr>cc_id = next_rowid (seq_chore_completions (db s))
                      (map cc_id (chore_completions (db s))),
             cc_chore_id = SqlInteger n, cc_member_id = SqlInteger m,
             cc_completed_at = SqlText now, cc_points_earned = c_points c0\<rparr>"
  let ?s' = "\<lparr>db = (db s)
         \<lparr>chores :=
            map (\<lambda>c. if c_id c = n
                     then c\<lparr>c_status := SqlText ''completed'', c_completed_at := SqlText now\<rparr>
                     else c) (chores (db s)),
          chore_completions := chore_completions (db s) @ [?r],
          seq_chore_completions := next_rowid (seq_chore_completions (db s))
                                    (map cc_id (chore_completions (db s)))\<rparr>,
       journal = None\<rparr>"
  have e: "completeChore no_faults now (Some n) (JNum m) s = (Resolved True, ?s')"
    by (rule completeChore_effect[OF assms])
  have 1: "chores (db ?s') =
             map (\<lambda>c. if c_id c = n
                      then c\<lparr>c_status := SqlText ''completed'', c_completed_at := SqlText now\<rparr>
                      else c) (chores (db s))"
    by simp
  have 2: "\<forall>c \<in> set (chores (db ?s')). c_id c = n \<longrightarrow>
              c_status c = SqlText ''completed'' \<and> c_completed_at c \<noteq> SqlNull"
    unfolding 1 by (rule completed_rows)
  have 3: "chore_completions (db ?s') = chore_completions (db s) @ [?r]"
    by simp
  have 4: "cc_chore_id ?r = SqlInteger n" "cc_member_id ?r = SqlInteger m"
    "cc_points_earned ?r = c_points c0"
    by simp_all
  from e 1 2 3 4 show ?thesis
    by (intro exI[of _ ?s'] exI[of _ ?r] conjI)
qed

theorem completeChore_completes_and_records_witness:
  "journal example_store = None \<and>
   find (\<lambda>c. c_id c = 1) (chores (db example_store)) = Some (hd (chores (db example_store))) \<and>
   (\<exists>s' r. completeChore no_faults ''2024-05-04 10:00:00'' (Some 1) (JNum 1) example_store
              = (Resolved True, s') \<and>
           (\<forall>c \<in> set (chores (db s')). c_id c = 1 \<longrightarrow>
              c_status c = SqlText ''completed'' \<and> c_completed_at c \<noteq> SqlNull) \<and>
           chore_completions (db s') = chore_completions (db example_store) @ [r] \<and>
           cc_chore_id r = SqlInteger 1 \<and> cc_member_id r = SqlInteger 1 \<and>
           cc_points_earned r = SqlInteger 3)"
proof -
  have j: "journal example_store = None"
    by (simp add: example_store_def)
  have f: "find (\<lambda>c. c_id c = 1) (chores (db example_store))
             = Some (hd (chores (db example_store)))"
    by (simp add: example_store_def)
  have p: "c_points (hd (chores (db example_store))) = SqlInteger 3"
    by (simp add: example_store_def)
  from completeChore_completes_and_records[OF j f, of "''2024-05-04 10:00:00''" 1]
  have "\<exists>s' r. completeChore no_faults ''2024-05-04 10:00:00'' (Some 1) (JNum 1) example_store
              = (Resolved True, s') \<and>
           (\<forall>c \<in> set (chores (db s')). c_id c = 1 \<longrightarrow>
              c_status c = SqlText ''completed'' \<and> c_completed_at c \<noteq> SqlNull) \<and>
           chore_completions (db s') = chore_completions (db example_store) @ [r] \<and>
           cc_chore_id r = SqlInteger 1 \<and> cc_member_id r = SqlInteger 1 \<and>
           cc_points_earned r = SqlInteger 3"
    unfolding p by (elim exE conjE, intro exI conjI)
  with j f show ?thesis by - (intro conjI; assumption)
qed

text \<open>What the code does when one of its three statements fails, with no transaction open
  at the start: the promise is rejected with that statement's error (the engine's, or the
  NOT NULL constraint of \<open>member_id\<close>), and ROLLBACK gives back the store of before the
  call.\<close>

lemma completeChore_statement_fails:
  assumes "journal s = None"
  shows "faults ReadPoints = Some err \<longrightarrow>
           completeChore faults now choreId memberId s = (Rejected (SqliteError err), s)"
    and "faults ReadPoints = None \<and> faults UpdateStatus = Some err \<longrightarrow>
           completeChore faults now choreId memberId s = (Rejected (SqliteError err), s)"
    and "faults ReadPoints = None \<and> faults UpdateStatus = None \<and>
         select_points choreId (db s) \<noteq> None \<and> faults InsertCompletion = Some err \<longrightarrow>
           completeChore faults now choreId memberId s = (Rejected (SqliteError err), s)"
    and "faults ReadPoints = None \<and> faults UpdateStatus = None \<and>
         select_points choreId (db s) \<noteq> None \<and> faults InsertCompletion = None \<and>
         bind memberId = SqlNull \<longrightarrow>
           completeChore faults now choreId memberId s =
             (Rejected (SqliteError SQLITE_CONSTRAINT), s)"
    and "completeChore faults now choreId memberId s = (Rejected e, s') \<longrightarrow> s' = s"
  unfolding completeChore_unfold[OF assms]
  by (auto simp: insert_completion_def split: option.splits sum.splits)

text \<open>The call for an id that is the id of no chore: BEGIN and the UPDATE (of no row) are
  done, the read of \<open>chore.points\<close> throws, and the transaction is left open.\<close>

lemma completeChore_unknown_chore:
  assumes "journal s = None" and "n \<notin> c_id ` set (chores (db s))"
  shows "completeChore no_faults now (Some n) memberId s =
           (Unsettled TypeError, \<lparr>db = db s, journal = Some (db s)\<rparr>)"
proof -
  from assms(2) have sel: "select_points (Some n) (db s) = None"
    by (rule select_points_None)
  from assms(2) have "map (\<lambda>c. if sql_eq (SqlInteger (c_id c)) (bind_number (Some n))
                  then c\<lparr>c_status := bind (JStr ''completed''),
                         c_completed_at := current_timestamp now\<rparr>
                  else c) (chores (db s)) = chores (db s)"
    by (intro map_idI) (auto simp: sql_eq_def)
  then have upd: "update_completed now (Some n) (db s) = db s"
    by (simp add: update_completed_def)
  show ?thesis
    unfolding completeChore_unfold[OF assms(1)] by (simp add: no_faults_def sel upd)
qed

text \<open>
  Claim C2 against the code. The call for the id of no chore (9999 in the example store)
  is not atomic in the way the claim says: after BEGIN, the SELECT and the UPDATE, the
  parameters of the INSERT cannot be read (\<open>chore\<close> is \<open>undefined\<close>), the exception
  is thrown in a callback, and the code neither rolls back nor rejects: the caller
  receives no error and the transaction stays open.
\<close>

theorem completeChore_unknown_chore_not_rolled_back:
  "journal example_store = None \<and>
   select_points (Some 9999) (db example_store) = None \<and>
   completeChore no_faults ''2024-05-04 10:00:00'' (Some 9999) (JNum 1) example_store
     = (Unsettled TypeError, \<lparr>db = db example_store, journal = Some (db example_store)\<rparr>)"
proof -
  have j: "journal example_store = None" by (simp add: example_store_def)
  have n: "9999 \<notin> c_id ` set (chores (db example_store))" by (simp add: example_store_def)
  from n have "select_points (Some 9999) (db example_store) = None"
    by (rule select_points_None)
  with j completeChore_unknown_chore[OF j n, of "''2024-05-04 10:00:00''" "JNum 1"]
  show ?thesis by (intro conjI)
qed

text \<open>And a COMMIT that fails is reported as success: the promise is resolved, with the
  transaction still open.\<close>

lemma completeChore_commit_fails:
  "fst (completeChore (no_faults(Commit := Some SQLITE_BUSY)) ''2024-05-04 10:00:00''
          (Some 1) (JNum 1) example_store) = Resolved True"
  "journal (snd (completeChore (no_faults(Commit := Some SQLITE_BUSY)) ''2024-05-04 10:00:00''
          (Some 1) (JNum 1) example_store)) = Some (db example_store)"
proof -
  have j: "journal example_store = None" by (simp add: example_store_def)
  show "fst (completeChore (no_faults(Commit := Some SQLITE_BUSY)) ''2024-05-04 10:00:00''
          (Some 1) (JNum 1) example_store) = Resolved True"
    unfolding completeChore_unfold[OF j]
    by (simp add: no_faults_def select_points_def sql_eq_def insert_completion_def Let_def
        example_store_def)
  show "journal (snd (completeChore (no_faults(Commit := Some SQLITE_BUSY))
          ''2024-05-04 10:00:00'' (Some 1) (JNum 1) example_store)) = Some (db example_store)"
    unfolding completeChore_unfold[OF j]
    by (simp add: no_faults_def select_points_def sql_eq_def insert_completion_def Let_def
        example_store_def)
qed

text \<open>
  Claim C9. With no transaction open, on a chore whose status is already \<open>completed\<close>,
  a further call (with an integer for the member id) resolves like the first one:
  \<open>chore_completions\<close> gets one more row for the chore, after the rows that were there,
  which stay as they were.
\<close>

theorem completeChore_completed_chore_again:
  assumes "journal s = None"
    and "find (\<lambda>c. c_id c = n) (chores (db s)) = Some c0"
    and "c_status c0 = SqlText ''completed''"
  shows "\<exists>s' r. completeChore no_faults now (Some n) (JNum m) s = (Resolved True, s') \<and>
           chore_completions (db s') = chore_completions (db s) @ [r] \<and>
           cc_chore_id r = SqlInteger n \<and> cc_member_id r = SqlInteger m \<and>
           cc_points_earned r = c_points c0 \<and>
           (\<forall>i < length (chore_completions (db s)).
              chore_completions (db s') ! i = chore_completions (db s) ! i)"
proof -
  let ?r = "\<lparr>cc_id = next_rowid (seq_chore_completions (db s))
                      (map cc_id (chore_completions (db s))),
             cc_chore_id = SqlInteger n, cc_member_id = SqlInteger m,
             cc_completed_at = SqlText now, cc_points_earned = c_points c0\<rparr>"
  let ?s' = "\<lparr>db = (db s)
         \<lparr>chores :=
            map (\<lambda>c. if c_id c = n
                     then c\<lparr>c_status := SqlText ''completed'', c_completed_at := SqlText now\<rparr>
                     else c) (chores (db s)),
          chore_completions := chore_completions (db s) @ [?r],
          seq_chore_completions := next_rowid (seq_chore_completions (db s))
                                    (map cc_id (chore_completions (db s)))\<rparr>,
       journal = None\<rparr>"
  have e: "completeChore no_faults now (Some n) (JNum m) s = (Resolved True, ?s')"
    by (rule completeChore_effect[OF assms(1,2)])
  have 3: "chore_completions (db ?s') = chore_completions (db s) @ [?r]"
    by simp
  have 4: "cc_chore_id ?r = SqlInteger n" "cc_member_id ?r = SqlInteger m"
    "cc_points_earned ?r = c_points c0"
    by simp_all
  have 5: "\<forall>i < length (chore_completions (db s)).
              chore_completions (db ?s') ! i = chore_completions (db s) ! i"
    unfolding 3 by (simp add: nth_append)
  from e 3 4 5 show ?thesis
    by (intro exI[of _ ?s'] exI[of _ ?r] conjI)
qed

theorem completeChore_completed_chore_again_witness:
  "journal example_store = None \<and>
   find (\<lambda>c. c_id c = 2) (chores (db example_store)) = Some (chores (db example_store) ! 1) \<and>
   c_status (chores (db example_store) ! 1) = SqlText ''completed'' \<and>
   (\<exists>s' r. completeChore no_faults ''2024-05-04 10:00:00'' (Some 2) (JNum 1) example_store
              = (Resolved True, s') \<and>
           chore_completions (db s') = chore_completions (db example_store) @ [r] \<and>
           cc_chore_id r = SqlInteger 2 \<and> cc_member_id r = SqlInteger 1 \<and>
           cc_points_earned r = SqlInteger 5 \<and>
           (\<forall>i < length (chore_completions (db example_store)).
              chore_completions (db s') ! i = chore_completions (db example_store) ! i))"
proof -
  have j: "journal example_store = None"
    by (simp add: example_store_def)
  have f: "find (\<lambda>c. c_id c = 2) (chores (db example_store))
             = Some (chores (db example_store) ! 1)"
    by (simp add: example_store_def)
  have st: "c_status (chores (db example_store) ! 1) = SqlText ''completed''"
    by (simp add: example_store_def)
  have p: "c_points (chores (db example_store) ! 1) = SqlInteger 5"
    by (simp add: example_store_def)
  from completeChore_completed_chore_again[OF j f st, of "''2024-05-04 10:00:00''" 1]
  have "\<exists>s' r. completeChore no_faults ''2024-05-04 10:00:00'' (Some 2) (JNum 1) example_store
              = (Resolved True, s') \<and>
           chore_completions (db s') = chore_completions (db example_store) @ [r] \<and>
           cc_chore_id r = SqlInteger 2 \<and> cc_member_id r = SqlInteger 1 \<and>
           cc_points_earned r = SqlInteger 5 \<and>
           (\<forall>i < length (chore_completions (db example_store)).
              chore_completions (db s') ! i = chore_completions (db example_store) ! i)"
    unfolding p by (elim exE conjE, intro exI conjI)
  with j f st show ?thesis by - (intro conjI; assumption)
qed


section \<open>The order of the rows of \<open>getChores\<close>\<close>

lemma sql_le_total: "sql_le a b \<or> sql_le b a"
  by (cases a; cases b) auto

lemma sql_le_trans: "sql_le a b \<Longrightarrow> sql_le b c \<Longrightarrow> sql_le a c"
  by (cases a; cases b; cases c) auto

lemma sql_le_antisym: "sql_le a b \<Longrightarrow> sql_le b a \<Longrightarrow> a = b"
  by (cases a; cases b) auto

lemma sql_le_refl: "sql_le a a"
  by (cases a) auto

lemma sql_le_Null: "sql_le a SqlNull \<longleftrightarrow> a = SqlNull"
  by (cases a) auto

lemma sql_less_trans: "sql_less a b \<Longrightarrow> sql_less b c \<Longrightarrow> sql_less a c"
proof -
  assume ab: "sql_less a b" and bc: "sql_less b c"
  from ab have "sql_le a b" using sql_le_total[of a b] by (simp add: sql_less_def)
  show "sql_less a c"
    unfolding sql_less_def
  proof
    assume "sql_le c a"
    from this \<open>sql_le a b\<close> have "sql_le c b" by (rule sql_le_trans)
    with bc show False by (simp add: sql_less_def)
  qed
qed

lemma chores_order_total: "chores_order a b \<or> chores_order b a"
proof (cases "c_due_date (r_chore a) = c_due_date (r_chore b)")
  case True
  with sql_le_total[of "c_priority (r_chore a)" "c_priority (r_chore b)"]
  show ?thesis by (simp add: chores_order_def) blast
next
  case False
  with sql_le_antisym[of "c_due_date (r_chore a)" "c_due_date (r_chore b)"]
  have "sql_less (c_due_date (r_chore a)) (c_due_date (r_chore b)) \<or>
        sql_less (c_due_date (r_chore b)) (c_due_date (r_chore a))"
    unfolding sql_less_def by blast
  then show ?thesis by (simp add: chores_order_def) blast
qed

lemma chores_order_trans:
  assumes ab: "chores_order a b" and bc: "chores_order b c"
  shows "chores_order a c"
proof (cases "sql_less (c_due_date (r_chore a)) (c_due_date (r_chore b))")
  case less_ab: True
  show ?thesis
  proof (cases "sql_less (c_due_date (r_chore b)) (c_due_date (r_chore c))")
    case True
    with less_ab have "sql_less (c_due_date (r_chore a)) (c_due_date (r_chore c))"
      by (rule sql_less_trans)
    then show ?thesis by (simp add: chores_order_def)
  next
    case False
    with bc have "c_due_date (r_chore b) = c_due_date (r_chore c)"
      by (simp add: chores_order_def)
    with less_ab show ?thesis by (simp add: chores_order_def)
  qed
next
  case False
  with ab have eq_ab: "c_due_date (r_chore a) = c_due_date (r_chore b)"
    and p_ab: "sql_le (c_priority (r_chore b)) (c_priority (r_chore a))"
    by (simp_all add: chores_order_def)
  show ?thesis
  proof (cases "sql_less (c_due_date (r_chore b)) (c_due_date (r_chore c))")
    case True
    with eq_ab show ?thesis by (simp add: chores_order_def)
  next
    case False
    with bc have eq_bc: "c_due_date (r_chore b) = c_due_date (r_chore c)"
      and p_bc: "sql_le (c_priority (r_chore c)) (c_priority (r_chore b))"
      by (simp_all add: chores_order_def)
    from p_bc p_ab have "sql_le (c_priority (r_chore c)) (c_priority (r_chore a))"
      by (rule sql_le_trans)
    with eq_ab eq_bc show ?thesis by (simp add: chores_order_def)
  qed
qed

lemma set_insert_sorted: "set (insert_sorted le x xs) = insert x (set xs)"
  by (induction xs) auto

lemma sorted_insert_sorted:
  assumes total: "\<And>a b. le a b \<or> le b a" and trans: "\<And>a b c. le a b \<Longrightarrow> le b c \<Longrightarrow> le a c"
  shows "sorted_wrt le xs \<Longrightarrow> sorted_wrt le (insert_sorted le x xs)"
proof (induction xs)
  case Nil
  then show ?case by simp
next
  case (Cons y ys)
  show ?case
  proof (cases "le x y")
    case True
    with Cons.prems trans show ?thesis by auto
  next
    case False
    with total have "le y x" by blast
    with Cons False show ?thesis by (auto simp: set_insert_sorted)
  qed
qed

lemma sorted_order_by:
  assumes total: "\<And>a b. le a b \<or> le b a" and trans: "\<And>a b c. le a b \<Longrightarrow> le b c \<Longrightarrow> le a c"
  shows "sorted_wrt le (order_by le xs)"
  unfolding order_by_def
  by (induction xs) (simp_all add: sorted_insert_sorted[OF total trans])

lemma set_order_by: "set (order_by le xs) = set xs"
  unfolding order_by_def by (induction xs) (simp_all add: set_insert_sorted)

lemma length_insert_sorted: "length (insert_sorted le x xs) = Suc (length xs)"
  by (induction xs) auto

lemma length_order_by: "length (order_by le xs) = length xs"
  unfolding order_by_def by (induction xs) (simp_all add: length_insert_sorted)

lemma getChores_sorted_wrt: "sorted_wrt chores_order (getChores status assignedTo d)"
  unfolding getChores_def
  by (rule sorted_order_by) (rule chores_order_total, erule (1) chores_order_trans)

lemma chores_order_due:
  assumes "chores_order a b"
  shows "sql_le (c_due_date (r_chore a)) (c_due_date (r_chore b))"
    and "c_due_date (r_chore b) = SqlNull \<longrightarrow> c_due_date (r_chore a) = SqlNull"
    and "c_due_date (r_chore a) = c_due_date (r_chore b) \<longrightarrow>
           sql_le (c_priority (r_chore b)) (c_priority (r_chore a))"
proof -
  from assms show 1: "sql_le (c_due_date (r_chore a)) (c_due_date (r_chore b))"
    unfolding chores_order_def sql_less_def
    using sql_le_total[of "c_due_date (r_chore a)" "c_due_date (r_chore b)"]
      sql_le_refl[of "c_due_date (r_chore a)"] by auto
  from 1 show "c_due_date (r_chore b) = SqlNull \<longrightarrow> c_due_date (r_chore a) = SqlNull"
    using sql_le_Null by metis
  from assms show "c_due_date (r_chore a) = c_due_date (r_chore b) \<longrightarrow>
           sql_le (c_priority (r_chore b)) (c_priority (r_chore a))"
    unfolding chores_order_def sql_less_def
    using sql_le_refl[of "c_due_date (r_chore b)"] by auto
qed

text \<open>The rows of the result are the joined rows that pass the filters.\<close>

lemma getChores_rows:
  "set (getChores status assignedTo d) =
     {r \<in> set (concat (map (left_join_members (family_members d)) (chores d))).
        list_all (\<lambda>cond. cond r) (where_conditions status assignedTo)}"
  by (simp add: getChores_def set_order_by)

lemma getChores_status_filter:
  assumes "truthy status" and "r \<in> set (getChores status assignedTo d)"
  shows "c_status (r_chore r) = bind status"
  using assms by (simp add: getChores_rows where_conditions_def sql_eq_def)

text \<open>
  Claim C3, as the code has it. Whatever the store and the filters, of two rows of the
  result the earlier one has the smaller or the same \<open>due_date\<close> in SQLite's order of
  values, in which NULL comes first: a row without a due date stands before every row
  with one. Rows with the same \<open>due_date\<close> are in descending order of \<open>priority\<close>,
  text compared byte by byte (and a NULL priority last among them).
\<close>

theorem getChores_order:
  "\<forall>i j. i < j \<and> j < length (getChores status assignedTo d) \<longrightarrow>
     sql_le (c_due_date (r_chore (getChores status assignedTo d ! i)))
            (c_due_date (r_chore (getChores status assignedTo d ! j))) \<and>
     (c_due_date (r_chore (getChores status assignedTo d ! j)) = SqlNull \<longrightarrow>
        c_due_date (r_chore (getChores status assignedTo d ! i)) = SqlNull) \<and>
     (c_due_date (r_chore (getChores status assignedTo d ! i)) =
        c_due_date (r_chore (getChores status assignedTo d ! j)) \<longrightarrow>
        sql_le (c_priority (r_chore (getChores status assignedTo d ! j)))
               (c_priority (r_chore (getChores status assignedTo d ! i))))"
proof (intro allI impI)
  fix i j
  assume "i < j \<and> j < length (getChores status assignedTo d)"
  with getChores_sorted_wrt[of status assignedTo d]
  have "chores_order (getChores status assignedTo d ! i) (getChores status assignedTo d ! j)"
    by (simp add: sorted_wrt_iff_nth_less)
  from chores_order_due[OF this] show
    "sql_le (c_due_date (r_chore (getChores status assignedTo d ! i)))
            (c_due_date (r_chore (getChores status assignedTo d ! j))) \<and>
     (c_due_date (r_chore (getChores status assignedTo d ! j)) = SqlNull \<longrightarrow>
        c_due_date (r_chore (getChores status assignedTo d ! i)) = SqlNull) \<and>
     (c_due_date (r_chore (getChores status assignedTo d ! i)) =
        c_due_date (r_chore (getChores status assignedTo d ! j)) \<longrightarrow>
        sql_le (c_priority (r_chore (getChores status assignedTo d ! j)))
               (c_priority (r_chore (getChores status assignedTo d ! i))))"
    by (intro conjI)
qed

lemma getChores_example:
  "map (\<lambda>r. (c_id (r_chore r), c_due_date (r_chore r), c_priority (r_chore r), assigned_name r))
     (getChores JUndefined JUndefined (db example_store)) =
   [(1, SqlNull, SqlText ''normal'', SqlText ''Mom''),
    (2, SqlText ''2024-06-01'', SqlText ''high'', SqlText ''Mom'')]"
  by (simp add: getChores_def order_by_def where_conditions_def left_join_members_def sql_eq_def
      chores_order_def sql_less_def example_store_def)

text \<open>
  Claim C3 as stated fails: in the example store the chore without a due date is listed
  before the chore that is due on 2024-06-01, so the list is not in ascending order with
  the NULL last.
\<close>

theorem getChores_nulls_last_counterexample:
  "\<not> sorted_wrt (\<lambda>a b. due_date_asc_nulls_last (c_due_date (r_chore a)) (c_due_date (r_chore b)))
       (getChores JUndefined JUndefined (db example_store))"
  by (simp add: getChores_def order_by_def where_conditions_def left_join_members_def sql_eq_def
      chores_order_def sql_less_def example_store_def due_date_asc_nulls_last_def)

theorem getChores_order_witness:
  "(0::nat) < 1 \<and> 1 < length (getChores JUndefined JUndefined (db example_store)) \<and>
   c_due_date (r_chore (getChores JUndefined JUndefined (db example_store) ! 0)) = SqlNull \<and>
   sql_le (c_due_date (r_chore (getChores JUndefined JUndefined (db example_store) ! 0)))
          (c_due_date (r_chore (getChores JUndefined JUndefined (db example_store) ! 1)))"
proof -
  have l: "(0::nat) < 1 \<and> 1 < length (getChores JUndefined JUndefined (db example_store))"
    using arg_cong[OF getChores_example, of length] by simp
  have n: "c_due_date (r_chore (getChores JUndefined JUndefined (db example_store) ! 0)) = SqlNull"
    by (simp add: getChores_def order_by_def where_conditions_def left_join_members_def sql_eq_def
      chores_order_def sql_less_def example_store_def)
  from getChores_order[of JUndefined JUndefined "db example_store"] l
  have "sql_le (c_due_date (r_chore (getChores JUndefined JUndefined (db example_store) ! 0)))
          (c_due_date (r_chore (getChores JUndefined JUndefined (db example_store) ! 1)))"
    by blast
  with l n show ?thesis by - (intro conjI; (erule conjunct1 | erule conjunct2 | assumption))
qed


section \<open>Seeding\<close>

lemma insert_or_ignore_config_present:
  "list_ex (\<lambda>e. sql_eq (dc_key e) k) (display_config d) \<Longrightarrow>
   insert_or_ignore_config now k v d = d"
  by (simp add: insert_or_ignore_config_def)

lemma insert_or_ignore_config_keeps:
  "list_ex (\<lambda>e. sql_eq (dc_key e) k) (display_config d) \<Longrightarrow>
   list_ex (\<lambda>e. sql_eq (dc_key e) k) (display_config (insert_or_ignore_config now k' v d))"
  by (simp add: insert_or_ignore_config_def)

lemma insert_or_ignore_config_adds:
  "list_ex (\<lambda>e. sql_eq (dc_key e) (SqlText k))
     (display_config (insert_or_ignore_config now (SqlText k) (SqlText v) d))"
  by (simp add: insert_or_ignore_config_def sql_eq_def)

lemma insert_or_ignore_config_members:
  "family_members (insert_or_ignore_config now k v d) = family_members d"
  by (simp add: insert_or_ignore_config_def)

lemma seed_config_present:
  "list_ex (\<lambda>e. sql_eq (dc_key e) (SqlText (fst config))) (display_config d) \<Longrightarrow>
   seed_config now config d = d"
  by (simp add: seed_config_def insert_or_ignore_config_present)

lemma seed_config_keeps:
  "list_ex (\<lambda>e. sql_eq (dc_key e) k) (display_config d) \<Longrightarrow>
   list_ex (\<lambda>e. sql_eq (dc_key e) k) (display_config (seed_config now config d))"
  by (simp add: seed_config_def insert_or_ignore_config_keeps)

lemma seed_config_adds:
  "list_ex (\<lambda>e. sql_eq (dc_key e) (SqlText (fst config)))
     (display_config (seed_config now config d))"
  using insert_or_ignore_config_adds[of "fst config" now "snd config" d]
  by (simp add: seed_config_def)

lemma seed_config_members: "family_members (seed_config now config d) = family_members d"
  by (simp add: seed_config_def insert_or_ignore_config_members)

lemma fold_config_present:
  "\<forall>config \<in> set cs. list_ex (\<lambda>e. sql_eq (dc_key e) (SqlText (fst config))) (display_config d) \<Longrightarrow>
   fold (seed_config now) cs d = d"
  by (induction cs) (simp_all add: seed_config_present)

lemma fold_config_keeps:
  "list_ex (\<lambda>e. sql_eq (dc_key e) k) (display_config d) \<Longrightarrow>
   list_ex (\<lambda>e. sql_eq (dc_key e) k) (display_config (fold (seed_config now) cs d))"
  by (induction cs arbitrary: d) (simp_all add: seed_config_keeps)

lemma fold_config_adds:
  "\<forall>config \<in> set cs. list_ex (\<lambda>e. sql_eq (dc_key e) (SqlText (fst config)))
      (display_config (fold (seed_config now) cs d))"
proof (induction cs arbitrary: d)
  case Nil
  show ?case by simp
next
  case (Cons c cs)
  have "list_ex (\<lambda>e. sql_eq (dc_key e) (SqlText (fst c)))
      (display_config (fold (seed_config now) cs (seed_config now c d)))"
    by (rule fold_config_keeps) (rule seed_config_adds)
  with Cons.IH[of "seed_config now c d"] show ?case by simp
qed

lemma fold_config_members:
  "family_members (fold (seed_config now) cs d) = family_members d"
  by (induction cs arbitrary: d) (simp_all add: seed_config_members)


lemma seed_member_config: "display_config (seed_member now member d) = display_config d"
  by (simp add: seed_member_def insert_member_def Let_def)

lemma fold_member_config:
  "display_config (fold (seed_member now) ms d) = display_config d"
  by (induction ms arbitrary: d) (simp_all add: seed_member_config)

lemma seed_member_nonempty:
  "family_members d \<noteq> [] \<Longrightarrow> family_members (seed_member now member d) \<noteq> []"
  by (simp add: seed_member_def insert_member_def Let_def)

lemma fold_member_nonempty:
  "family_members d \<noteq> [] \<Longrightarrow> family_members (fold (seed_member now) ms d) \<noteq> []"
  by (induction ms arbitrary: d) (simp_all add: seed_member_nonempty)

lemma seed_member_first:
  "family_members d = [] \<Longrightarrow> family_members (seed_member now member d) \<noteq> []"
  by (simp add: seed_member_def insert_member_def Let_def)

lemma seed_members_nonempty:
  "family_members (fold (seed_member now) defaultMembers d) \<noteq> []"
proof (cases "family_members d = []")
  case True
  have "fold (seed_member now) defaultMembers d =
          fold (seed_member now) (tl defaultMembers) (seed_member now (hd defaultMembers) d)"
    by (simp add: defaultMembers_def)
  with seed_member_first[OF True] show ?thesis
    by (simp add: fold_member_nonempty)
next
  case False
  then show ?thesis by (rule fold_member_nonempty)
qed

lemma insertDefaultConfig_populated:
  assumes m: "family_members (db s) \<noteq> []"
    and c: "\<forall>config \<in> set defaultConfigs.
             list_ex (\<lambda>e. sql_eq (dc_key e) (SqlText (fst config))) (display_config (db s))"
  shows "insertDefaultConfig now s = s"
proof -
  have "fold (seed_config now) defaultConfigs (db s) = db s"
    using c by (rule fold_config_present)
  with m show ?thesis by (simp add: insertDefaultConfig_def Let_def)
qed

lemma insertDefaultConfig_seeded:
  "family_members (db (insertDefaultConfig now s)) \<noteq> [] \<and>
   (\<forall>config \<in> set defaultConfigs.
      list_ex (\<lambda>e. sql_eq (dc_key e) (SqlText (fst config)))
        (display_config (db (insertDefaultConfig now s))))"
proof (cases "family_members (db s) = []")
  case True
  then have "db (insertDefaultConfig now s) =
      fold (seed_member now) defaultMembers (fold (seed_config now) defaultConfigs (db s))"
    by (simp add: insertDefaultConfig_def Let_def fold_config_members)
  then show ?thesis
    using fold_config_adds[of defaultConfigs now "db s"]
    by (simp add: seed_members_nonempty fold_member_config)
next
  case False
  then have "db (insertDefaultConfig now s) = fold (seed_config now) defaultConfigs (db s)"
    by (simp add: insertDefaultConfig_def Let_def fold_config_members)
  then show ?thesis
    using fold_config_adds[of defaultConfigs now "db s"] False
    by (simp add: fold_config_members)
qed

lemma insertDefaultConfig_fresh:
  "map fm_name (family_members (db (insertDefaultConfig now fresh_store))) =
     [SqlText ''Mom'', SqlText ''Dad'', SqlText ''Child 1'', SqlText ''Child 2''] \<and>
   map fm_id (family_members (db (insertDefaultConfig now fresh_store))) = [1, 2, 3, 4] \<and>
   map dc_key (display_config (db (insertDefaultConfig now fresh_store))) =
     [SqlText ''current_view'', SqlText ''photo_rotation_interval'',
      SqlText ''calendar_refresh_interval'', SqlText ''display_brightness'',
      SqlText ''sleep_schedule_enabled'', SqlText ''sleep_start_time'', SqlText ''wake_time'']"
  by (simp add: insertDefaultConfig_def Let_def fresh_store_def defaultConfigs_def
      defaultMembers_def seed_config_def seed_member_def insert_or_ignore_config_def
      insert_member_def sql_eq_def next_rowid_def)

lemma seed_config_appends:
  "\<exists>rows. display_config (seed_config now config d) = display_config d @ rows"
  by (simp add: seed_config_def insert_or_ignore_config_def)

lemma fold_config_appends:
  "\<exists>rows. display_config (fold (seed_config now) cs d) = display_config d @ rows"
proof (induction cs arbitrary: d)
  case Nil
  show ?case by simp
next
  case (Cons c cs)
  from seed_config_appends[of now c d] obtain r1 where
    1: "display_config (seed_config now c d) = display_config d @ r1" ..
  from Cons.IH[of "seed_config now c d"] obtain r2 where
    2: "display_config (fold (seed_config now) cs (seed_config now c d))
          = display_config (seed_config now c d) @ r2" ..
  from 1 2 have "display_config (fold (seed_config now) (c # cs) d) = display_config d @ (r1 @ r2)"
    by simp
  then show ?case ..
qed

lemma insertDefaultConfig_keeps_config:
  "\<exists>rows. display_config (db (insertDefaultConfig now s)) = display_config (db s) @ rows"
  using fold_config_appends[of now defaultConfigs "db s"]
  by (simp add: insertDefaultConfig_def Let_def fold_member_config)

lemma insertDefaultConfig_keeps_members:
  "family_members (db s) \<noteq> [] \<Longrightarrow>
   family_members (db (insertDefaultConfig now s)) = family_members (db s)"
  by (simp add: insertDefaultConfig_def Let_def fold_config_members)

text \<open>
  Claim C7. Initialising a fresh store leaves exactly 4 members and 7 configuration rows.
  Initialising a store that has a member and the seven default keys changes nothing; and
  whatever the store, initialising it a second time changes nothing: no row is added.
  The two rules behind it: a store with a member keeps its members as they are, and the
  configuration rows of a store stay as they are, new rows coming after them.
\<close>

theorem createTables_seeds_once:
  "length (family_members (db (createTables now fresh_store))) = 4 \<and>
   length (display_config (db (createTables now fresh_store))) = 7 \<and>
   (family_members (db s) \<noteq> [] \<and>
    (\<forall>config \<in> set defaultConfigs.
       list_ex (\<lambda>e. sql_eq (dc_key e) (SqlText (fst config))) (display_config (db s))) \<longrightarrow>
    createTables now s = s) \<and>
   createTables now' (createTables now s) = createTables now s \<and>
   (family_members (db s) \<noteq> [] \<longrightarrow>
    family_members (db (createTables now s)) = family_members (db s)) \<and>
   (\<exists>rows. display_config (db (createTables now s)) = display_config (db s) @ rows)"
proof -
  have 1: "length (family_members (db (createTables now fresh_store))) = 4"
    using arg_cong[OF conjunct1[OF insertDefaultConfig_fresh[of now]], of length]
    by (simp add: createTables_def)
  have 2: "length (display_config (db (createTables now fresh_store))) = 7"
    using arg_cong[OF conjunct2[OF conjunct2[OF insertDefaultConfig_fresh[of now]]], of length]
    by (simp add: createTables_def)
  have 3: "family_members (db s) \<noteq> [] \<and>
    (\<forall>config \<in> set defaultConfigs.
       list_ex (\<lambda>e. sql_eq (dc_key e) (SqlText (fst config))) (display_config (db s))) \<longrightarrow>
    createTables now s = s"
    unfolding createTables_def
    by (intro impI, elim conjE, rule insertDefaultConfig_populated)
  have 4: "createTables now' (createTables now s) = createTables now s"
    unfolding createTables_def
    using insertDefaultConfig_seeded[of now s]
    by (intro insertDefaultConfig_populated) simp_all
  have 5: "family_members (db s) \<noteq> [] \<longrightarrow>
    family_members (db (createTables now s)) = family_members (db s)"
    unfolding createTables_def by (intro impI) (rule insertDefaultConfig_keeps_members)
  have 6: "\<exists>rows. display_config (db (createTables now s)) = display_config (db s) @ rows"
    unfolding createTables_def by (rule insertDefaultConfig_keeps_config)
  from 1 2 3 4 5 6 show ?thesis by (intro conjI)
qed


theorem createTables_seeds_once_witness:
  "family_members (db (createTables ''2024-05-01 08:00:00'' fresh_store)) \<noteq> [] \<and>
   list_all (\<lambda>config. list_ex (\<lambda>e. sql_eq (dc_key e) (SqlText (fst config)))
                        (display_config (db (createTables ''2024-05-01 08:00:00'' fresh_store))))
     defaultConfigs \<and>
   createTables ''2024-06-01 08:00:00'' (createTables ''2024-05-01 08:00:00'' fresh_store)
     = createTables ''2024-05-01 08:00:00'' fresh_store \<and>
   length (family_members (db (createTables ''2024-05-01 08:00:00'' fresh_store))) = 4 \<and>
   length (display_config (db (createTables ''2024-05-01 08:00:00'' fresh_store))) = 7"
proof -
  have m: "family_members (db (createTables ''2024-05-01 08:00:00'' fresh_store)) \<noteq> []"
    using insertDefaultConfig_seeded[of "''2024-05-01 08:00:00''" fresh_store]
    by (simp add: createTables_def)
  have c: "list_all (\<lambda>config. list_ex (\<lambda>e. sql_eq (dc_key e) (SqlText (fst config)))
                        (display_config (db (createTables ''2024-05-01 08:00:00'' fresh_store))))
     defaultConfigs"
    using insertDefaultConfig_seeded[of "''2024-05-01 08:00:00''" fresh_store]
    by (simp add: createTables_def list_all_iff)
  from c have c': "\<forall>config \<in> set defaultConfigs.
       list_ex (\<lambda>e. sql_eq (dc_key e) (SqlText (fst config)))
         (display_config (db (createTables ''2024-05-01 08:00:00'' fresh_store)))"
    by (simp add: list_all_iff)
  note t = createTables_seeds_once[where now = "''2024-05-01 08:00:00''"]
  note t' = createTables_seeds_once[where now = "''2024-06-01 08:00:00''"
      and s = "createTables ''2024-05-01 08:00:00'' fresh_store"]
  from t' m c' have r: "createTables ''2024-06-01 08:00:00''
       (createTables ''2024-05-01 08:00:00'' fresh_store)
     = createTables ''2024-05-01 08:00:00'' fresh_store"
    by blast
  from t have l: "length (family_members (db (createTables ''2024-05-01 08:00:00'' fresh_store))) = 4"
    "length (display_config (db (createTables ''2024-05-01 08:00:00'' fresh_store))) = 7"
    by blast+
  from m c r l show ?thesis by (intro conjI)
qed

section \<open>Properties of \<open>addChore\<close>\<close>

lemma find_member_None:
  "find (\<lambda>m. JNum (fm_id m) = v) (getFamilyMembers d) = None \<longleftrightarrow>
   (\<forall>m \<in> set (family_members d). JNum (fm_id m) \<noteq> v)"
  by (auto simp: find_None_iff getFamilyMembers_def set_order_by)

lemma addChore_title_required:
  "\<not> truthy (property chore ''title'') \<Longrightarrow> addChore now chore s = (Rejected TitleRequired, s)"
  by (simp add: addChore_def Let_def)

lemma addChore_member_missing:
  assumes "truthy (property chore ''title'')"
    and "truthy (property chore ''assigned_to'')"
    and "\<forall>m \<in> set (family_members (db s)). JNum (fm_id m) \<noteq> property chore ''assigned_to''"
  shows "addChore now chore s = (Rejected (MemberDoesNotExist (property chore ''assigned_to'')), s)"
  using assms by (simp add: addChore_def Let_def find_member_None)

lemma addChore_rejected_unchanged:
  "addChore now chore s = (Rejected err, s') \<Longrightarrow> s' = s"
  by (simp add: addChore_def Let_def insert_chore_def split: if_splits)

lemma addChore_Resolved:
  assumes "addChore now chore s = (Resolved lastID, s')"
  shows "\<exists>c. chores (db s') = chores (db s) @ [c] \<and> c_id c = lastID \<and>
             c_status c = SqlText ''pending'' \<and> c_completed_at c = SqlNull \<and>
             c_title c = bind (property chore ''title'') \<and>
             c_assigned_to c = bind (property chore ''assigned_to'')"
proof -
  let ?c = "\<lparr>c_id = next_rowid (seq_chores (db s)) (map c_id (chores (db s))),
             c_title = bind (property chore ''title''),
             c_description = bind (property chore ''description''),
             c_assigned_to = bind (property chore ''assigned_to''),
             c_status = SqlText ''pending'',
             c_priority = bind (default_to (JStr ''normal'') (property chore ''priority'')),
             c_due_date = bind (property chore ''due_date''),
             c_completed_at = SqlNull,
             c_points = bind (default_to (JNum 1) (property chore ''points'')),
             c_category = bind (default_to (JStr ''general'') (property chore ''category'')),
             c_created_at = current_timestamp now,
             c_updated_at = current_timestamp now\<rparr>"
  from assms have "chores (db s') = chores (db s) @ [?c] \<and> c_id ?c = lastID"
    by (clarsimp simp: addChore_def Let_def insert_chore_def split: if_splits)
  then have "chores (db s') = chores (db s) @ [?c]" "c_id ?c = lastID" by simp_all
  moreover have "c_status ?c = SqlText ''pending''" "c_completed_at ?c = SqlNull"
    "c_title ?c = bind (property chore ''title'')"
    "c_assigned_to ?c = bind (property chore ''assigned_to'')"
    by simp_all
  ultimately show ?thesis by (intro exI[of _ ?c] conjI)
qed

lemma addChore_reads_seven:
  assumes "\<forall>k \<in> set [''title'', ''description'', ''assigned_to'', ''due_date'', ''priority'',
                       ''category'', ''points'']. property chore k = property chore' k"
  shows "addChore now chore s = addChore now chore' s"
  using assms by (simp add: addChore_def)


text \<open>
  Claim C10. A status or a completed_at that the caller supplies is not read: two objects
  that agree on the seven properties \<open>addChore\<close> destructures give the same result.
  Every chore \<open>addChore\<close> creates is the new last row of \<open>chores\<close>, with the id the
  promise resolves with, status \<open>pending\<close> and \<open>completed_at\<close> NULL.
\<close>

theorem addChore_creates_pending:
  "((\<forall>k \<in> set [''title'', ''description'', ''assigned_to'', ''due_date'', ''priority'',
                  ''category'', ''points'']. property chore k = property chore' k) \<longrightarrow>
      addChore now chore s = addChore now chore' s) \<and>
   (addChore now chore s = (Resolved lastID, s') \<longrightarrow>
      (\<exists>c. chores (db s') = chores (db s) @ [c] \<and> c_id c = lastID \<and>
           c_status c = SqlText ''pending'' \<and> c_completed_at c = SqlNull))"
proof (intro conjI impI)
  assume "\<forall>k \<in> set [''title'', ''description'', ''assigned_to'', ''due_date'', ''priority'',
                  ''category'', ''points'']. property chore k = property chore' k"
  then show "addChore now chore s = addChore now chore' s"
    by (rule addChore_reads_seven)
next
  assume "addChore now chore s = (Resolved lastID, s')"
  from addChore_Resolved[OF this] obtain c where
    "chores (db s') = chores (db s) @ [c]" "c_id c = lastID"
    "c_status c = SqlText ''pending''" "c_completed_at c = SqlNull"
    by (elim exE conjE)
  then show "\<exists>c. chores (db s') = chores (db s) @ [c] \<and> c_id c = lastID \<and>
           c_status c = SqlText ''pending'' \<and> c_completed_at c = SqlNull"
    by (intro exI[of _ c] conjI)
qed

lemma addChore_example:
  "fst (addChore ''2024-05-04 10:00:00'' example_chore example_store) = Resolved 3 \<and>
   map c_status (chores (db (snd (addChore ''2024-05-04 10:00:00'' example_chore example_store))))
     = [SqlText ''pending'', SqlText ''completed'', SqlText ''pending''] \<and>
   map c_completed_at
       (chores (db (snd (addChore ''2024-05-04 10:00:00'' example_chore example_store))))
     = [SqlNull, SqlText ''2024-05-03 18:00:00'', SqlNull]"
  by (simp add: addChore_def Let_def example_chore_def example_store_def property_def
      default_to_def getFamilyMembers_def order_by_def insert_chore_def next_rowid_def)

theorem addChore_creates_pending_witness:
  "list_all (\<lambda>k. property example_chore k = property (take 3 example_chore) k)
     [''title'', ''description'', ''assigned_to'', ''due_date'', ''priority'', ''category'',
      ''points''] \<and>
   addChore ''2024-05-04 10:00:00'' example_chore example_store
     = addChore ''2024-05-04 10:00:00'' (take 3 example_chore) example_store \<and>
   addChore ''2024-05-04 10:00:00'' example_chore example_store
     = (Resolved 3, snd (addChore ''2024-05-04 10:00:00'' example_chore example_store)) \<and>
   (\<exists>c. chores (db (snd (addChore ''2024-05-04 10:00:00'' example_chore example_store)))
          = chores (db example_store) @ [c] \<and>
        c_id c = 3 \<and> c_status c = SqlText ''pending'' \<and> c_completed_at c = SqlNull)"
proof -
  have k: "list_all (\<lambda>k. property example_chore k = property (take 3 example_chore) k)
     [''title'', ''description'', ''assigned_to'', ''due_date'', ''priority'', ''category'',
      ''points'']"
    by (simp add: example_chore_def property_def)
  then have k': "\<forall>k \<in> set [''title'', ''description'', ''assigned_to'', ''due_date'',
      ''priority'', ''category'', ''points''].
        property example_chore k = property (take 3 example_chore) k"
    unfolding list_all_iff .
  have r: "addChore ''2024-05-04 10:00:00'' example_chore example_store
     = (Resolved 3, snd (addChore ''2024-05-04 10:00:00'' example_chore example_store))"
    using conjunct1[OF addChore_example] by (simp add: prod_eq_iff)
  note t = addChore_creates_pending[where now = "''2024-05-04 10:00:00''"
      and chore = example_chore and chore' = "take 3 example_chore"
      and s = example_store and lastID = 3
      and s' = "snd (addChore ''2024-05-04 10:00:00'' example_chore example_store)"]
  from conjunct1[OF t] k' have i: "addChore ''2024-05-04 10:00:00'' example_chore example_store
     = addChore ''2024-05-04 10:00:00'' (take 3 example_chore) example_store"
    by (rule mp)
  from conjunct2[OF t] r
  have "\<exists>c. chores (db (snd (addChore ''2024-05-04 10:00:00'' example_chore example_store)))
          = chores (db example_store) @ [c] \<and>
        c_id c = 3 \<and> c_status c = SqlText ''pending'' \<and> c_completed_at c = SqlNull"
    by (rule mp)
  with k i r show ?thesis by (intro conjI)
qed

text \<open>
  Claim C5 holds where the code looks: a title that is missing or empty is refused, an
  \<open>assigned_to\<close> that is truthy and is no member's id is refused, and a refused call
  leaves the store as it was (the three lemmas above). It fails for the \<open>assigned_to\<close>
  values that are set and falsy: with \<open>assigned_to: 0\<close> the check of the member is
  skipped and the chore is stored, assigned to a member that does not exist.
\<close>

theorem addChore_assigned_to_zero:
  "fst (addChore ''2024-05-04 10:00:00'' [(''title'', JStr ''Sweep''), (''assigned_to'', JNum 0)]
          example_store) = Resolved 3 \<and>
   map c_assigned_to
     (chores (db (snd (addChore ''2024-05-04 10:00:00''
                        [(''title'', JStr ''Sweep''), (''assigned_to'', JNum 0)] example_store))))
     = [SqlInteger 1, SqlInteger 1, SqlInteger 0] \<and>
   map fm_id (family_members (db example_store)) = [1]"
  by (simp add: addChore_def Let_def example_store_def property_def
      default_to_def getFamilyMembers_def order_by_def insert_chore_def next_rowid_def)


section \<open>Properties of \<open>updateChore\<close> and of \<open>PUT /:choreId\<close>\<close>

lemma update_rows_no_match:
  "\<forall>c \<in> set cs. \<not> sql_eq (SqlInteger (c_id c)) i \<Longrightarrow> update_rows now as i cs = Inr (0, cs)"
  by (induction cs) simp_all

lemma no_match_bind_number:
  "\<forall>c \<in> set cs. Some (c_id c) \<noteq> i \<Longrightarrow> \<forall>c \<in> set cs. \<not> sql_eq (SqlInteger (c_id c)) (bind_number i)"
  by (cases i) (simp_all add: sql_eq_def)

lemma updateChore_not_prepared:
  "\<not> prepare_update (map fst updates) \<Longrightarrow>
   updateChore now i updates s = (Rejected (SqliteError SQLITE_ERROR), s)"
  by (simp add: updateChore_def update_chores_def comp_def case_prod_unfold)

lemma updateChore_no_match:
  assumes "\<forall>c \<in> set (chores (db s)). Some (c_id c) \<noteq> i"
    and "prepare_update (map fst updates)"
  shows "updateChore now i updates s = (Resolved 0, s)"
proof -
  have "update_rows now (map (\<lambda>(k, v). (k, bind v)) updates) (bind_number i) (chores (db s))
          = Inr (0, chores (db s))"
    by (rule update_rows_no_match) (rule no_match_bind_number, rule assms(1))
  with assms(2) show ?thesis
    by (simp add: updateChore_def update_chores_def comp_def case_prod_unfold)
qed

text \<open>The path the route is written for: when the id is the id of no chore (NaN
  included), and the update object has at least one key and every key names a column of
  \<open>chores\<close>, \<open>updateChore\<close> resolves with 0 and changes nothing, and the route
  answers 404.\<close>

lemma put_chore_unknown_id:
  assumes "\<forall>c \<in> set (chores (db s)). Some (c_id c) \<noteq> i"
    and "updates \<noteq> []"
    and "\<forall>k \<in> set (map fst updates). column_name k \<in> set chores_columns"
  shows "updateChore now i updates s = (Resolved 0, s)"
    and "put_chore now i updates s =
           (\<lparr>status_code = 404, json = ErrorBody ''Chore not found''\<rparr>, s)"
proof -
  from assms(2,3) have "prepare_update (map fst updates)"
    by (simp add: prepare_update_def list_all_iff)
  with assms(1) show "updateChore now i updates s = (Resolved 0, s)"
    by (rule updateChore_no_match)
  then show "put_chore now i updates s =
           (\<lparr>status_code = 404, json = ErrorBody ''Chore not found''\<rparr>, s)"
    by (simp add: put_chore_def)
qed

text \<open>
  Claim C6 against the code. For the empty update object the SET list of the statement
  starts with a comma and the statement does not compile: though 9999 is the id of no
  chore, \<open>updateChore\<close> rejects instead of resolving with 0, and the route answers 500
  instead of the 404 it gives on the same id for an object with a key.
\<close>

theorem put_chore_empty_object:
  "list_all (\<lambda>c. Some (c_id c) \<noteq> Some 9999) (chores (db example_store)) \<and>
   updateChore ''2024-05-04 10:00:00'' (Some 9999) [] example_store
     = (Rejected (SqliteError SQLITE_ERROR), example_store) \<and>
   put_chore ''2024-05-04 10:00:00'' (Some 9999) [] example_store
     = (\<lparr>status_code = 500, json = ErrorBody ''Failed to update chore''\<rparr>, example_store) \<and>
   put_chore ''2024-05-04 10:00:00'' (Some 9999) [(''status'', JStr ''completed'')] example_store
     = (\<lparr>status_code = 404, json = ErrorBody ''Chore not found''\<rparr>, example_store)"
proof -
  have 1: "list_all (\<lambda>c. Some (c_id c) \<noteq> Some 9999) (chores (db example_store))"
    by (simp add: example_store_def)
  have 2: "updateChore ''2024-05-04 10:00:00'' (Some 9999) [] example_store
     = (Rejected (SqliteError SQLITE_ERROR), example_store)"
    by (rule updateChore_not_prepared) (simp add: prepare_update_def)
  have 3: "put_chore ''2024-05-04 10:00:00'' (Some 9999) [] example_store
     = (\<lparr>status_code = 500, json = ErrorBody ''Failed to update chore''\<rparr>, example_store)"
    unfolding put_chore_def 2 by simp
  from 1 have a1: "\<forall>c \<in> set (chores (db example_store)). Some (c_id c) \<noteq> Some 9999"
    by (simp add: list_all_iff)
  have 4: "put_chore ''2024-05-04 10:00:00'' (Some 9999) [(''status'', JStr ''completed'')]
       example_store
     = (\<lparr>status_code = 404, json = ErrorBody ''Chore not found''\<rparr>, example_store)"
    by (rule put_chore_unknown_id(2)[OF a1])
       (simp_all add: chores_columns_def column_name_def ascii_lower_def)
  from 1 2 3 4 show ?thesis by (intro conjI)
qed

section \<open>\<open>POST /:choreId/complete\<close> on ids that are not there\<close>

text \<open>
  Claim C4 against the code. For the id of no chore, \<open>completeChore\<close> does not check
  that the chore is there: it issues the UPDATE (which changes no row) and then throws a
  TypeError in the UPDATE's callback, reading \<open>chore.points\<close> of \<open>undefined\<close>; the
  promise is never settled, the route sends no response at all (no 500), and the
  transaction stays open. For the id of no member the call succeeds and the route
  answers 200, with a completion row for a member that does not exist.
\<close>

theorem post_complete_unknown_ids:
  "post_complete no_faults ''2024-05-04 10:00:00'' (Some 9999) [(''memberId'', JNum 1)]
       example_store
     = (None, \<lparr>db = db example_store, journal = Some (db example_store)\<rparr>) \<and>
   fst (post_complete no_faults ''2024-05-04 10:00:00'' (Some 1) [(''memberId'', JNum 9999)]
          example_store)
     = Some \<lparr>status_code = 200, json = MessageBody ''Chore completed successfully''\<rparr> \<and>
   map cc_member_id (chore_completions (db (snd
       (post_complete no_faults ''2024-05-04 10:00:00'' (Some 1) [(''memberId'', JNum 9999)]
          example_store))))
     = [SqlInteger 1, SqlInteger 9999] \<and>
   map fm_id (family_members (db example_store)) = [1] \<and>
   map c_id (chores (db example_store)) = [1, 2]"
proof -
  have j: "journal example_store = None" by (simp add: example_store_def)
  have n: "9999 \<notin> c_id ` set (chores (db example_store))" by (simp add: example_store_def)
  have 1: "post_complete no_faults ''2024-05-04 10:00:00'' (Some 9999) [(''memberId'', JNum 1)]
       example_store
     = (None, \<lparr>db = db example_store, journal = Some (db example_store)\<rparr>)"
    unfolding post_complete_def Let_def completeChore_unknown_chore[OF j n] by simp
  have f: "find (\<lambda>c. c_id c = 1) (chores (db example_store))
             = Some (hd (chores (db example_store)))"
    by (simp add: example_store_def)
  have p: "property [(''memberId'', JNum 9999)] ''memberId'' = JNum 9999"
    by (simp add: property_def)
  note e = completeChore_effect[OF j f, of "''2024-05-04 10:00:00''" 9999]
  have 2: "fst (post_complete no_faults ''2024-05-04 10:00:00'' (Some 1) [(''memberId'', JNum 9999)]
          example_store)
     = Some \<lparr>status_code = 200, json = MessageBody ''Chore completed successfully''\<rparr>"
    unfolding post_complete_def Let_def p using e by simp
  have 3: "map cc_member_id (chore_completions (db (snd
       (post_complete no_faults ''2024-05-04 10:00:00'' (Some 1) [(''memberId'', JNum 9999)]
          example_store))))
     = [SqlInteger 1, SqlInteger 9999]"
    unfolding post_complete_def Let_def p using e by (simp add: example_store_def)
  have 4: "map fm_id (family_members (db example_store)) = [1]"
    "map c_id (chores (db example_store)) = [1, 2]"
    by (simp_all add: example_store_def)
  from 1 2 3 4 show ?thesis by (intro conjI)
qed

section \<open>Properties of the Socket.IO handlers\<close>

lemma io_connection: "socket \<in> set (fst (io_step sockets (Connection socket)))"
  by simp

lemma io_disconnect: "socket \<notin> set (fst (io_step sockets (Disconnect socket)))"
  by simp

lemma io_not_connected: "socket \<notin> set sockets \<Longrightarrow> snd (io_step sockets (Received socket ev)) = []"
  by simp

lemma io_recipients:
  "socket \<in> set sockets \<Longrightarrow> map fst (snd (io_step sockets (Received socket ev))) = sockets"
  by (cases ev) (simp_all add: io_emit_def comp_def)

text \<open>
  Claim C8. An event that a connected socket sends is sent on, with its payload
  unchanged, under the name \<open>view-changed\<close> for \<open>switch-view\<close>, \<open>config-changed\<close>
  for \<open>config-update\<close> and \<open>chore-changed\<close> for \<open>chore-update\<close>: one message to
  each connected socket, the sender among them, and the sockets stay connected.
\<close>

theorem io_rebroadcast:
  assumes "socket \<in> set sockets"
  shows "io_step sockets (Received socket (Switch_view p)) =
           (sockets, map (\<lambda>c. (c, View_changed p)) sockets) \<and>
         io_step sockets (Received socket (Config_update p)) =
           (sockets, map (\<lambda>c. (c, Config_changed p)) sockets) \<and>
         io_step sockets (Received socket (Chore_update p)) =
           (sockets, map (\<lambda>c. (c, Chore_changed p)) sockets) \<and>
         (socket, View_changed p) \<in> set (snd (io_step sockets (Received socket (Switch_view p)))) \<and>
         (socket, Config_changed p) \<in> set (snd (io_step sockets (Received socket (Config_update p)))) \<and>
         (socket, Chore_changed p) \<in> set (snd (io_step sockets (Received socket (Chore_update p)))) \<and>
         (\<forall>ev. map fst (snd (io_step sockets (Received socket ev))) = sockets)"
proof -
  from assms have "\<forall>ev. map fst (snd (io_step sockets (Received socket ev))) = sockets"
    by (intro allI) (rule io_recipients)
  with assms show ?thesis
    by (simp add: io_emit_def image_iff)
qed

theorem io_rebroadcast_witness:
  "(2::nat) \<in> set [1, 2, 3] \<and>
   io_step [1, 2, 3] (Received 2 (Switch_view ''calendar'')) =
     ([1, 2, 3], [(1, View_changed ''calendar''), (2, View_changed ''calendar''),
                  (3, View_changed ''calendar'')])"
proof -
  have m: "(2::nat) \<in> set [1, 2, 3]" by simp
  from conjunct1[OF io_rebroadcast[OF m, of "''calendar''"]] have
    "io_step [1, 2, 3] (Received 2 (Switch_view ''calendar'')) =
     ([1, 2, 3], [(1, View_changed ''calendar''), (2, View_changed ''calendar''),
                  (3, View_changed ''calendar'')])"
    by (simp add: io_emit_def)
  with m show ?thesis by (intro conjI)
qed


section \<open>The repository's tests on the model\<close>

text \<open>The checks of the repository's tests \<open>should validate chore data\<close>,
  \<open>should update chore status\<close> and \<open>PUT /api/chores/:id should return 404 for
  non-existent chore\<close>, on the example store.\<close>

lemma test_validate_chore_data:
  "addChore ''2024-05-04 10:00:00'' [] example_store = (Rejected TitleRequired, example_store)"
  "addChore ''2024-05-04 10:00:00'' [(''title'', JStr ''Test Chore''), (''assigned_to'', JNum 9999)]
     example_store = (Rejected (MemberDoesNotExist (JNum 9999)), example_store)"
  by (simp_all add: addChore_def Let_def property_def default_to_def getFamilyMembers_def
      order_by_def example_store_def)

lemma test_update_chore_status:
  "fst (updateChore ''2024-05-04 10:00:00'' (Some 1) [(''status'', JStr ''in-progress'')]
          example_store) = Resolved 1"
  "map c_status (chores (db (snd (updateChore ''2024-05-04 10:00:00'' (Some 1)
          [(''status'', JStr ''in-progress'')] example_store))))
     = [SqlText ''in-progress'', SqlText ''completed'']"
  by (simp_all add: updateChore_def update_chores_def prepare_update_def chores_columns_def
      column_name_def ascii_lower_def update_row_def set_column_def sql_eq_def
      current_timestamp_def example_store_def Let_def)

lemma test_put_unknown_chore:
  "fst (put_chore ''2024-05-04 10:00:00'' (Some 9999) [(''status'', JStr ''completed'')]
          example_store) = \<lparr>status_code = 404, json = ErrorBody ''Chore not found''\<rparr>"
  by (simp add: put_chore_def updateChore_def update_chores_def prepare_update_def
      chores_columns_def column_name_def ascii_lower_def sql_eq_def example_store_def)

text \<open>A key in upper case names the same column; the \<open>assignedTo\<close> of a query string
  is text and selects the chores of that member.\<close>

lemma test_update_upper_case_key:
  "fst (updateChore ''2024-05-04 10:00:00'' (Some 1) [(''STATUS'', JStr ''in-progress'')]
          example_store) = Resolved 1"
  "map c_status (chores (db (snd (updateChore ''2024-05-04 10:00:00'' (Some 1)
          [(''STATUS'', JStr ''in-progress'')] example_store))))
     = [SqlText ''in-progress'', SqlText ''completed'']"
  by (simp_all add: updateChore_def update_chores_def prepare_update_def chores_columns_def
      column_name_def ascii_lower_def update_row_def set_column_def sql_eq_def
      current_timestamp_def example_store_def Let_def)

lemma test_chores_by_assignee_text:
  "map (\<lambda>r. c_id (r_chore r)) (getChores JUndefined (JStr ''1'') (db example_store)) = [1, 2]"
  "getChores JUndefined (JStr ''2'') (db example_store) = []"
  by (simp_all add: getChores_def order_by_def where_conditions_def left_join_members_def
      sql_eq_def numeric_affinity_def integer_literal_def is_digit_def digits_value_def
      chores_order_def sql_less_def example_store_def)

end
